theory Spec2Isabelle
  imports Main "HOL-Library.Word" "HOL-Library.AList"
begin

unbundle bit_operations_syntax

section \<open>JavaScript values\<close>

text \<open>
  The sources are JavaScript: \<^verbatim>\<open>lib/auth/auth_provider.js\<close> (the coordinator,
  class \<^verbatim>\<open>AuthProvider\<close>) and the SCRAM mechanism (class \<^verbatim>\<open>ScramSHA\<close> with its
  helpers). Strings are lists of 8-bit code units; a buffer is a list of bytes.
  A number is an integer or \<^verbatim>\<open>NaN\<close>, which is all that \<^verbatim>\<open>parseInt\<close> returns.
\<close>

datatype jsnum = NaN | Num int

datatype jsval = JUndefined | JNull | JBool bool | JNumber jsnum | JStr string

text \<open>What \<^verbatim>\<open>if (v)\<close>, \<^verbatim>\<open>v && ...\<close> and \<^verbatim>\<open>!v\<close> test.\<close>

fun truthy :: "jsval \<Rightarrow> bool" where
  "truthy JUndefined = False"
| "truthy JNull = False"
| "truthy (JBool b) = b"
| "truthy (JNumber NaN) = False"
| "truthy (JNumber (Num n)) = (n \<noteq> 0)"
| "truthy (JStr s) = (s \<noteq> [])"

text \<open>Decimal digits of a natural number, most significant first.\<close>

fun nat_toString :: "nat \<Rightarrow> string" where
  "nat_toString n =
     (if n < 10 then [char_of (48 + n)]
      else nat_toString (n div 10) @ [char_of (48 + n mod 10)])"

declare nat_toString.simps [simp del]

text \<open>
  \<^verbatim>\<open>String(n)\<close> for the numbers of this model: the decimal digits, as JavaScript writes
  an integer below \<^verbatim>\<open>1e21\<close> that a double holds exactly.
\<close>

fun number_toString :: "jsnum \<Rightarrow> string" where
  "number_toString NaN = ''NaN''"
| "number_toString (Num i) =
     (if i < 0 then CHR ''-'' # nat_toString (nat (- i)) else nat_toString (nat i))"

text \<open>
  The conversion \<^verbatim>\<open>Array.prototype.join\<close> applies to each element: \<^verbatim>\<open>undefined\<close>
  and \<^verbatim>\<open>null\<close> give the empty string, everything else its \<^verbatim>\<open>String\<close> form.
\<close>

fun join_element :: "jsval \<Rightarrow> string" where
  "join_element JUndefined = []"
| "join_element JNull = []"
| "join_element (JBool b) = (if b then ''true'' else ''false'')"
| "join_element (JNumber n) = number_toString n"
| "join_element (JStr s) = s"

fun join_js :: "string \<Rightarrow> jsval list \<Rightarrow> string" where
  "join_js sep [] = []"
| "join_js sep [x] = join_element x"
| "join_js sep (x # y # ys) = join_element x @ sep @ join_js sep (y # ys)"

section \<open>Buffers, base64 and \<^verbatim>\<open>xor\<close>\<close>

type_synonym buffer = "8 word list"

text \<open>\<^verbatim>\<open>Buffer.from(s)\<close> of a string: its bytes.\<close>

definition Buffer_from :: "string \<Rightarrow> buffer" where
  "Buffer_from s = map (\<lambda>c. of_char c) s"

text \<open>\<^verbatim>\<open>buf.toString()\<close>: the bytes as text.\<close>

definition Buffer_toString :: "buffer \<Rightarrow> string" where
  "Buffer_toString b = map (\<lambda>w. char_of (unat w)) b"

definition base64_alphabet :: string where
  "base64_alphabet = ''ABCDEFGHIJKLMNOPQRSTUVWXYZabcdefghijklmnopqrstuvwxyz0123456789+/''"

definition base64_char :: "nat \<Rightarrow> char" where
  "base64_char n = base64_alphabet ! (n mod 64)"

text \<open>\<^verbatim>\<open>buf.toString('base64')\<close>: three bytes give four characters, padded with \<^verbatim>\<open>=\<close>.\<close>

fun toString_base64 :: "buffer \<Rightarrow> string" where
  "toString_base64 [] = []"
| "toString_base64 [a] =
     (let n = unat a * 65536
      in [base64_char (n div 262144), base64_char (n div 4096), CHR ''='', CHR ''=''])"
| "toString_base64 [a, b] =
     (let n = unat a * 65536 + unat b * 256
      in [base64_char (n div 262144), base64_char (n div 4096), base64_char (n div 64),
          CHR ''=''])"
| "toString_base64 (a # b # c # rest) =
     (let n = unat a * 65536 + unat b * 256 + unat c
      in [base64_char (n div 262144), base64_char (n div 4096), base64_char (n div 64),
          base64_char n] @ toString_base64 rest)"

text \<open>
  \<^verbatim>\<open>function xor(a, b)\<close>. An argument that is not a buffer is first turned into one
  with \<^verbatim>\<open>Buffer.from\<close>.
\<close>

datatype xor_arg = ABuffer buffer | AString string

fun to_buffer :: "xor_arg \<Rightarrow> buffer" where
  "to_buffer (ABuffer b) = b"
| "to_buffer (AString s) = Buffer_from s"

text \<open>
  \<^verbatim>\<open>a[i]\<close> as the operand of \<^verbatim>\<open>^\<close>: past the end it is \<^verbatim>\<open>undefined\<close>, which
  \<^verbatim>\<open>^\<close> reads as 0.
\<close>

definition xor_operand :: "buffer \<Rightarrow> nat \<Rightarrow> 8 word" where
  "xor_operand a i = (if i < length a then a ! i else 0)"

text \<open>The array \<^verbatim>\<open>res\<close> that the loop of \<^verbatim>\<open>xor\<close> fills.\<close>

definition xor_res :: "buffer \<Rightarrow> buffer \<Rightarrow> buffer" where
  "xor_res a b =
     map (\<lambda>i. xor_operand a i XOR xor_operand b i) [0 ..< max (length a) (length b)]"

definition xor_js :: "xor_arg \<Rightarrow> xor_arg \<Rightarrow> string" where
  "xor_js a b = toString_base64 (xor_res (to_buffer a) (to_buffer b))"

section \<open>Username escaping\<close>

text \<open>
  \<^verbatim>\<open>s.replace(pat, rep)\<close> with a string pattern: only the first occurrence of the
  pattern is replaced. (The replacement strings used here contain no \<^verbatim>\<open>$\<close>.)
\<close>

fun replace_js :: "string \<Rightarrow> string \<Rightarrow> string \<Rightarrow> string" where
  "replace_js pat rep [] = (if pat = [] then rep else [])"
| "replace_js pat rep (c # cs) =
     (if take (length pat) (c # cs) = pat then rep @ drop (length pat) (c # cs)
      else c # replace_js pat rep cs)"

text \<open>\<^verbatim>\<open>username.replace('=', '=3D').replace(',', '=2C')\<close>\<close>

definition escape_username :: "string \<Rightarrow> string" where
  "escape_username u = replace_js '','' ''=2C'' (replace_js ''='' ''=3D'' u)"

text \<open>
  The escaping as the specification words it: every \<^verbatim>\<open>=\<close> becomes \<^verbatim>\<open>=3D\<close> and every
  \<^verbatim>\<open>,\<close> becomes \<^verbatim>\<open>=2C\<close>, in a single pass.
\<close>

definition escape_every_spec :: "string \<Rightarrow> string" where
  "escape_every_spec u =
     concat (map (\<lambda>c. if c = CHR ''='' then ''=3D'' else if c = CHR '','' then ''=2C'' else [c]) u)"

section \<open>Replies, errors and commands\<close>

text \<open>
  The result document of a server reply, with the fields the code reads:
  \<^verbatim>\<open>$err\<close>, \<^verbatim>\<open>errmsg\<close>, \<^verbatim>\<open>payload\<close>, \<^verbatim>\<open>conversationId\<close> and \<^verbatim>\<open>done\<close>.
  A field the document does not carry reads as \<^verbatim>\<open>undefined\<close>; \<open>r_payload\<close> is the
  text that \<^verbatim>\<open>payload.value()\<close> returns, if the payload is there.
\<close>

record document =
  r_dollar_err :: jsval
  r_errmsg :: jsval
  r_payload :: "string option"
  r_conversationId :: jsval
  r_done :: jsval

text \<open>
  The second argument \<^verbatim>\<open>r\<close> of a callback: \<^verbatim>\<open>null\<close>, \<^verbatim>\<open>false\<close> (both are passed by
  \<^verbatim>\<open>_executeScram\<close>) or a reply object with its \<^verbatim>\<open>result\<close>.
\<close>

datatype jsreply = RNull | RFalse | RReply document

text \<open>
  Error objects, thrown or passed to a callback. \<open>ErrorDocument\<close> is a result
  document used as the error (\<^verbatim>\<open>errorObject = r.result\<close>).
\<close>

datatype error = MongoError string | TypeError string | OtherError string | ErrorDocument document

type_synonym outcome = "error option \<times> jsreply"

datatype sasl_command =
    SaslStart string string     \<comment> \<open>\<^verbatim>\<open>{saslStart: 1, mechanism, payload, autoAuthorize: 1}\<close>\<close>
  | SaslContinue jsval string   \<comment> \<open>\<^verbatim>\<open>{saslContinue: 1, conversationId, payload}\<close>\<close>

record query =
  ns :: string
  cmd :: sasl_command
  numberToSkip :: nat
  numberToReturn :: nat

text \<open>\<^verbatim>\<open>AuthProvider._buildCommand\<close>\<close>

definition buildCommand :: "string \<Rightarrow> sasl_command \<Rightarrow> query" where
  "buildCommand namespace c = \<lparr>ns = namespace, cmd = c, numberToSkip = 0, numberToReturn = 1\<rparr>"

text \<open>
  The \<^verbatim>\<open>server\<close> (send command) function handed to the mechanism: for a connection
  and a command, the \<^verbatim>\<open>(err, r)\<close> its callback receives.
\<close>

type_synonym 'c send_command = "'c \<Rightarrow> query \<Rightarrow> outcome"

section \<open>Credentials and the platform\<close>

record credentials =
  username :: jsval
  password :: jsval
  source :: string
  mechanism :: string

datatype crypto_method = Sha1 | Sha256

text \<open>
  What Node's \<^verbatim>\<open>crypto\<close> and \<^verbatim>\<open>Buffer\<close> modules and the optional \<^verbatim>\<open>saslprep\<close>
  package compute is not part of the repository; the mechanism is modelled over
  any such functions. \<^verbatim>\<open>pbkdf2Sync\<close> and \<^verbatim>\<open>saslprep\<close> may throw.
\<close>

record platform =
  md5_hex_digest :: "string \<Rightarrow> string"
  hash_digest :: "crypto_method \<Rightarrow> buffer \<Rightarrow> buffer"
  hmac_digest :: "crypto_method \<Rightarrow> buffer \<Rightarrow> string \<Rightarrow> buffer"
  pbkdf2Sync :: "jsval \<Rightarrow> buffer \<Rightarrow> jsnum \<Rightarrow> nat \<Rightarrow> crypto_method \<Rightarrow> error + buffer"
  base64_decode :: "string \<Rightarrow> buffer"
  saslprep :: "(jsval \<Rightarrow> error + jsval) option"

section \<open>Helpers of the mechanism\<close>

text \<open>\<^verbatim>\<open>s.split(sep)\<close> for a one-character separator.\<close>

fun split_js :: "char \<Rightarrow> string \<Rightarrow> string list" where
  "split_js sep [] = [[]]"
| "split_js sep (c # cs) =
     (if c = sep then [] # split_js sep cs
      else (case split_js sep cs of [] \<Rightarrow> [[c]] | p # ps \<Rightarrow> (c # p) # ps))"

text \<open>
  \<^verbatim>\<open>parsePayload\<close>: \<^verbatim>\<open>dict[valueParts[0]] = valueParts[1]\<close> for every part, a later
  part overwriting an earlier one; \<^verbatim>\<open>valueParts[1]\<close> is \<^verbatim>\<open>undefined\<close> (\<open>None\<close>)
  when the part has no \<^verbatim>\<open>=\<close>.
\<close>

definition parsePayload_part :: "string \<Rightarrow> (string \<Rightarrow> string option) \<Rightarrow> (string \<Rightarrow> string option)" where
  "parsePayload_part part dict =
     (case split_js CHR ''='' part of
        [] \<Rightarrow> dict
      | k # rest \<Rightarrow> dict (k := (case rest of [] \<Rightarrow> None | v # _ \<Rightarrow> Some v)))"

definition parsePayload :: "string \<Rightarrow> (string \<Rightarrow> string option)" where
  "parsePayload payload = fold parsePayload_part (split_js CHR '','' payload) (\<lambda>_. None)"

text \<open>
  \<^verbatim>\<open>parseInt(s, 10)\<close>: leading white space is skipped, a sign is read, then the
  longest run of decimal digits; \<^verbatim>\<open>NaN\<close> without a digit, and for \<^verbatim>\<open>undefined\<close>.
  The value is the exact integer the digits denote. JavaScript rounds it to the
  nearest double, so the two differ for digit strings that denote more than \<^verbatim>\<open>2^53\<close>;
  the iteration counts compared with 4096 are far below that.
\<close>

definition is_white_space :: "char \<Rightarrow> bool" where
  "is_white_space c = ((of_char c :: nat) \<in> {9, 10, 11, 12, 13, 32, 160})"

definition is_digit :: "char \<Rightarrow> bool" where
  "is_digit c = (48 \<le> (of_char c :: nat) \<and> (of_char c :: nat) \<le> 57)"

definition digits_value :: "string \<Rightarrow> nat" where
  "digits_value ds = foldl (\<lambda>acc c. acc * 10 + (of_char c - 48)) 0 ds"

definition parseInt10 :: "string option \<Rightarrow> jsnum" where
  "parseInt10 input =
     (case input of
        None \<Rightarrow> NaN
      | Some s \<Rightarrow>
          (let t = dropWhile is_white_space s;
               negative = (t \<noteq> [] \<and> hd t = CHR ''-'');
               u = (if t \<noteq> [] \<and> (hd t = CHR ''-'' \<or> hd t = CHR ''+'') then tl t else t);
               ds = takeWhile is_digit u
           in if ds = [] then NaN
              else Num (if negative then - int (digits_value ds) else int (digits_value ds))))"

text \<open>\<^verbatim>\<open>passwordDigest\<close>: the checks in the order of the source, then the MD5.\<close>

definition passwordDigest :: "platform \<Rightarrow> jsval \<Rightarrow> jsval \<Rightarrow> error + string" where
  "passwordDigest p user pass =
     (case user of
        JStr u \<Rightarrow>
          (case pass of
             JStr pw \<Rightarrow>
               if length pw = 0 then Inl (MongoError ''password cannot be empty'')
               else Inr (md5_hex_digest p (u @ '':mongo:'' @ pw))
           | _ \<Rightarrow> Inl (MongoError ''password must be a string''))
      | _ \<Rightarrow> Inl (MongoError ''username must be a string''))"

text \<open>\<^verbatim>\<open>H\<close> and \<^verbatim>\<open>HMAC\<close>\<close>

definition H :: "platform \<Rightarrow> crypto_method \<Rightarrow> buffer \<Rightarrow> buffer" where
  "H p method text = hash_digest p method text"

definition HMAC :: "platform \<Rightarrow> crypto_method \<Rightarrow> buffer \<Rightarrow> string \<Rightarrow> buffer" where
  "HMAC p method key text = hmac_digest p method key text"

section \<open>The salted-password cache\<close>

text \<open>
  The module variables \<^verbatim>\<open>_hiCache\<close> (an object used as a dictionary, here the list
  of its entries) and \<^verbatim>\<open>_hiCacheCount\<close>. \<open>derivations\<close> is not a variable of the
  source: it logs the calls of \<^verbatim>\<open>crypto.pbkdf2Sync\<close> (material, salt, iterations), so
  that theorems can say when the iterated computation runs.
\<close>

record scram_globals =
  hiCache :: "(string \<times> buffer) list"
  hiCacheCount :: nat
  derivations :: "(jsval \<times> buffer \<times> jsnum) list"

definition initial_globals :: scram_globals where
  "initial_globals = \<lparr>hiCache = [], hiCacheCount = 0, derivations = []\<rparr>"

definition hiCachePurge :: "scram_globals \<Rightarrow> scram_globals" where
  "hiCachePurge g = g\<lparr>hiCache := [], hiCacheCount := 0\<rparr>"

definition hiLengthMap :: "crypto_method \<Rightarrow> nat" where
  "hiLengthMap m = (case m of Sha256 \<Rightarrow> 32 | Sha1 \<Rightarrow> 20)"

text \<open>\<^verbatim>\<open>[data, salt.toString('base64'), iterations].join('_')\<close>\<close>

definition hi_key :: "jsval \<Rightarrow> buffer \<Rightarrow> jsnum \<Rightarrow> string" where
  "hi_key data salt iterations =
     join_js ''_'' [data, JStr (toString_base64 salt), JNumber iterations]"

text \<open>\<^verbatim>\<open>HI\<close>: the result or the exception of \<^verbatim>\<open>pbkdf2Sync\<close>, and the module state after.\<close>

definition HI :: "platform \<Rightarrow> scram_globals \<Rightarrow> jsval \<Rightarrow> buffer \<Rightarrow> jsnum \<Rightarrow> crypto_method
    \<Rightarrow> (error + buffer) \<times> scram_globals" where
  "HI p g data salt iterations cryptoMethod =
     (let key = hi_key data salt iterations in
      case map_of (hiCache g) key of
        Some cached \<Rightarrow> (Inr cached, g)
      | None \<Rightarrow>
          (let g1 = g\<lparr>derivations := derivations g @ [(data, salt, iterations)]\<rparr> in
           case pbkdf2Sync p data salt iterations (hiLengthMap cryptoMethod) cryptoMethod of
             Inl e \<Rightarrow> (Inl e, g1)
           | Inr saltedData \<Rightarrow>
               (let g2 = (if hiCacheCount g1 \<ge> 200 then hiCachePurge g1 else g1) in
                (Inr saltedData,
                 g2\<lparr>hiCache := AList.update key saltedData (hiCache g2),
                    hiCacheCount := hiCacheCount g2 + 1\<rparr>))))"

text \<open>A sequence of calls of \<^verbatim>\<open>HI\<close>, each on the state the one before left.\<close>

fun HI_calls :: "platform \<Rightarrow> (jsval \<times> buffer \<times> jsnum \<times> crypto_method) list \<Rightarrow> scram_globals
    \<Rightarrow> scram_globals" where
  "HI_calls p [] g = g"
| "HI_calls p ((data, salt, iterations, m) # cs) g =
     HI_calls p cs (snd (HI p g data salt iterations m))"

section \<open>The SCRAM conversation on one connection\<close>

text \<open>
  How a call of \<^verbatim>\<open>_executeScram\<close> ends: with an exception, or with one call
  \<^verbatim>\<open>callback(err, r)\<close>.
\<close>

datatype completion = Threw error | Callback "error option" jsreply

text \<open>
  \<^verbatim>\<open>ScramSHA._getError\<close>: the error to report, \<open>None\<close> for \<^verbatim>\<open>undefined\<close>. Without
  \<^verbatim>\<open>err\<close>, reading \<^verbatim>\<open>r.result['$err']\<close> throws when \<^verbatim>\<open>r\<close> is \<^verbatim>\<open>null\<close> or \<^verbatim>\<open>false\<close>.
\<close>

definition getError :: "error option \<Rightarrow> jsreply \<Rightarrow> error + error option" where
  "getError err r =
     (case err of
        Some e \<Rightarrow> Inr (Some e)
      | None \<Rightarrow>
          (case r of
             RReply d \<Rightarrow>
               if truthy (r_dollar_err d) \<or> truthy (r_errmsg d) then Inr (Some (ErrorDocument d))
               else Inr None
           | _ \<Rightarrow> Inl (TypeError ''cannot read a property of r.result'')))"

text \<open>The mechanism name and the password material, by \<^verbatim>\<open>cryptoMethod\<close>.\<close>

definition mechanism_name :: "crypto_method \<Rightarrow> string" where
  "mechanism_name m = (case m of Sha256 \<Rightarrow> ''SCRAM-SHA-256'' | Sha1 \<Rightarrow> ''SCRAM-SHA-1'')"

definition processPassword :: "platform \<Rightarrow> crypto_method \<Rightarrow> credentials \<Rightarrow> error + jsval" where
  "processPassword p m c =
     (case m of
        Sha256 \<Rightarrow>
          (case saslprep p of
             Some saslprepFn \<Rightarrow> saslprepFn (password c)
           | None \<Rightarrow> Inr (password c))
      | Sha1 \<Rightarrow>
          (case passwordDigest p (username c) (password c) of
             Inl e \<Rightarrow> Inl e
           | Inr digest \<Rightarrow> Inr (JStr digest)))"

text \<open>
  \<^verbatim>\<open>username.replace(...)\<close>: only a string has the method; on any other value the
  call throws.
\<close>

definition clean_username :: "jsval \<Rightarrow> error + string" where
  "clean_username user =
     (case user of
        JStr u \<Rightarrow> Inr (escape_username u)
      | _ \<Rightarrow> Inl (TypeError ''username.replace is not a function''))"

text \<open>
  The callback of the \<^verbatim>\<open>saslContinue\<close> round (lines 231 to 244): \<open>sent\<close> are the
  commands written so far.
\<close>

definition on_saslContinue :: "'c send_command \<Rightarrow> 'c \<Rightarrow> string \<Rightarrow> query list \<Rightarrow> outcome
    \<Rightarrow> completion \<times> query list" where
  "on_saslContinue server connection db sent reply =
     (case reply of
        (err, RReply d) \<Rightarrow>
          if r_done d \<noteq> JBool False then (Callback err (RReply d), sent)
          else
            (let retrySaslContinueCmd =
                   buildCommand (db @ ''.$cmd'') (SaslContinue (r_conversationId d) [])
             in case server connection retrySaslContinueCmd of
                  (err3, r3) \<Rightarrow> (Callback err3 r3, sent @ [retrySaslContinueCmd]))
      | (err, r) \<Rightarrow> (Callback err r, sent))"

text \<open>\<^verbatim>\<open>iterations && iterations < 4096\<close>\<close>

definition invalid_iteration_count :: "jsnum \<Rightarrow> bool" where
  "invalid_iteration_count iterations =
     (truthy (JNumber iterations) \<and> (case iterations of NaN \<Rightarrow> False | Num i \<Rightarrow> i < 4096))"

text \<open>A value of the dictionary inside a template literal: \<^verbatim>\<open>`${rnonce}`\<close>.\<close>

definition template_value :: "string option \<Rightarrow> string" where
  "template_value v = (case v of None \<Rightarrow> ''undefined'' | Some x \<Rightarrow> x)"

text \<open>
  The client final message (lines 199 to 219): client key, stored key, authentication
  message, client signature and proof. A string's \<^verbatim>\<open>toString('base64')\<close> ignores its
  argument, so the payload text enters the authentication message as it is.
\<close>

definition clientFinal_message :: "platform \<Rightarrow> crypto_method \<Rightarrow> buffer \<Rightarrow> string \<Rightarrow> string
    \<Rightarrow> string \<Rightarrow> string" where
  "clientFinal_message p cryptoMethod saltedPassword firstBare payload_text withoutProof =
     (let clientKey = HMAC p cryptoMethod saltedPassword ''Client Key'';
          storedKey = H p cryptoMethod clientKey;
          authMessage = join_js '','' [JStr firstBare, JStr payload_text, JStr withoutProof];
          clientSignature = HMAC p cryptoMethod storedKey authMessage;
          clientProof = ''p='' @ xor_js (ABuffer clientKey) (ABuffer clientSignature)
      in join_js '','' [JStr withoutProof, JStr clientProof])"

text \<open>The callback of the \<^verbatim>\<open>saslStart\<close> round (lines 170 to 245).\<close>

definition on_saslStart :: "platform \<Rightarrow> crypto_method \<Rightarrow> 'c send_command \<Rightarrow> 'c \<Rightarrow> string
    \<Rightarrow> jsval \<Rightarrow> string \<Rightarrow> query list \<Rightarrow> scram_globals \<Rightarrow> outcome
    \<Rightarrow> completion \<times> query list \<times> scram_globals" where
  "on_saslStart p cryptoMethod server connection db processedPassword firstBare sent g reply =
     (case getError (fst reply) (snd reply) of
        Inl e \<Rightarrow> (Threw e, sent, g)
      | Inr (Some tmpError) \<Rightarrow> (Callback (Some tmpError) RNull, sent, g)
      | Inr None \<Rightarrow>
          (case snd reply of
             RReply d \<Rightarrow>
               (case r_payload d of
                  None \<Rightarrow> (Threw (TypeError ''cannot read a property of r.result.payload''), sent, g)
                | Some payload_text \<Rightarrow>
                    (let dict = parsePayload payload_text;
                         iterations = parseInt10 (dict ''i'');
                         withoutProof = ''c=biws,r='' @ template_value (dict ''r'')
                     in case dict ''s'' of
                          None \<Rightarrow> (Threw (TypeError ''Buffer.from of undefined''), sent, g)
                        | Some salt \<Rightarrow>
                            (case HI p g processedPassword (base64_decode p salt) iterations
                                    cryptoMethod of
                               (Inl e, g') \<Rightarrow> (Threw e, sent, g')
                             | (Inr saltedPassword, g') \<Rightarrow>
                                 if invalid_iteration_count iterations
                                 then
                                   (Callback
                                      (Some (MongoError (''Server returned an invalid iteration count ''
                                               @ number_toString iterations)))
                                      RFalse, sent, g')
                                 else
                                   (let clientFinal =
                                          clientFinal_message p cryptoMethod saltedPassword
                                            firstBare payload_text withoutProof;
                                        saslContinueCmd =
                                          buildCommand (db @ ''.$cmd'')
                                            (SaslContinue (r_conversationId d) clientFinal)
                                    in case on_saslContinue server connection db
                                              (sent @ [saslContinueCmd])
                                              (server connection saslContinueCmd) of
                                         (c, sent') \<Rightarrow> (c, sent', g')))))
           | _ \<Rightarrow> (Threw (TypeError ''cannot read a property of r.result''), sent, g)))"

text \<open>
  The first client message without the GS2 header (\<^verbatim>\<open>firstBare\<close>) and the
  \<^verbatim>\<open>saslStart\<close> command that carries it.
\<close>

definition first_bare :: "string \<Rightarrow> string \<Rightarrow> string" where
  "first_bare user nonce = ''n='' @ user @ '',r='' @ nonce"

definition saslStart_command :: "crypto_method \<Rightarrow> string \<Rightarrow> string \<Rightarrow> query" where
  "saslStart_command cryptoMethod db firstBare =
     buildCommand (db @ ''.$cmd'')
       (SaslStart (mechanism_name cryptoMethod) (''n,,'' @ firstBare))"

text \<open>
  \<^verbatim>\<open>ScramSHA._executeScram\<close>: how the attempt ends, the commands written on the
  connection in order, and the module state after.
\<close>

definition executeScram :: "platform \<Rightarrow> crypto_method \<Rightarrow> 'c send_command \<Rightarrow> 'c \<Rightarrow> credentials
    \<Rightarrow> string \<Rightarrow> scram_globals \<Rightarrow> completion \<times> query list \<times> scram_globals" where
  "executeScram p cryptoMethod server connection c nonce g =
     (let db = source c in
      case processPassword p cryptoMethod c of
        Inl e \<Rightarrow> (Threw e, [], g)
      | Inr processedPassword \<Rightarrow>
          (case clean_username (username c) of
             Inl e \<Rightarrow> (Threw e, [], g)
           | Inr user \<Rightarrow>
               (let firstBare = first_bare user nonce;
                    saslStartCmd = saslStart_command cryptoMethod db firstBare
                in on_saslStart p cryptoMethod server connection db processedPassword firstBare
                     [saslStartCmd] g (server connection saslStartCmd))))"

section \<open>The coordinator\<close>

text \<open>
  Modelled from the spec: \<^verbatim>\<open>MongoCredentials.equals\<close> is not among the sources. The
  specification has two credentials equal iff username, source and mechanism match.
\<close>

definition equals :: "credentials \<Rightarrow> credentials \<Rightarrow> bool" where
  "equals a b = (username a = username b \<and> source a = source b \<and> mechanism a = mechanism b)"

text \<open>\<^verbatim>\<open>AuthProvider.addCredentials\<close> and \<^verbatim>\<open>AuthProvider.logout\<close> on \<^verbatim>\<open>this.authStore\<close>.\<close>

definition addCredentials :: "credentials list \<Rightarrow> credentials \<Rightarrow> credentials list" where
  "addCredentials authStore c =
     (let found = list_ex (\<lambda>cred. equals cred c) authStore
      in if \<not> found then authStore @ [c] else authStore)"

definition logout :: "credentials list \<Rightarrow> string \<Rightarrow> credentials list" where
  "logout authStore src = filter (\<lambda>c. source c \<noteq> src) authStore"

text \<open>
  The variables that the callback of one \<^verbatim>\<open>_auth\<close> call closes over, and the second
  argument of the call's own callback (\<^verbatim>\<open>null\<close>, \<^verbatim>\<open>true\<close> or \<^verbatim>\<open>false\<close>).
\<close>

record auth_closure =
  count :: int
  numberOfValidConnections :: nat
  errorObject :: "error option"

datatype auth_result = ResNull | ResBool bool

type_synonym auth_call = "error option \<times> auth_result"

text \<open>
  The branch of the callback that sorts an outcome (lines 67 to 75). With no \<^verbatim>\<open>err\<close>
  and \<^verbatim>\<open>r\<close> \<^verbatim>\<open>null\<close>, reading \<^verbatim>\<open>r.result\<close> throws; \<^verbatim>\<open>false.result\<close> is \<^verbatim>\<open>undefined\<close>.
\<close>

definition auth_sort_outcome :: "outcome \<Rightarrow> auth_closure \<Rightarrow> error + auth_closure" where
  "auth_sort_outcome out c =
     (case out of
        (Some err, r) \<Rightarrow> Inr (c\<lparr>errorObject := Some err\<rparr>)
      | (None, RNull) \<Rightarrow> Inl (TypeError ''cannot read property result of null'')
      | (None, RFalse) \<Rightarrow> Inr (c\<lparr>numberOfValidConnections := numberOfValidConnections c + 1\<rparr>)
      | (None, RReply d) \<Rightarrow>
          if truthy (r_dollar_err d) then Inr (c\<lparr>errorObject := Some (ErrorDocument d)\<rparr>)
          else if truthy (r_errmsg d) then Inr (c\<lparr>errorObject := Some (ErrorDocument d)\<rparr>)
          else Inr (c\<lparr>numberOfValidConnections := numberOfValidConnections c + 1\<rparr>))"

text \<open>The end of the callback, once \<^verbatim>\<open>count\<close> is 0 (lines 83 to 93).\<close>

definition auth_finish :: "credentials \<Rightarrow> credentials list \<Rightarrow> auth_closure
    \<Rightarrow> credentials list \<times> auth_closure \<times> auth_call" where
  "auth_finish cred authStore c =
     (if numberOfValidConnections c > 0 then (addCredentials authStore cred, c, (None, ResBool True))
      else
        (let c' = (if errorObject c = None
                   then c\<lparr>errorObject :=
                          Some (MongoError (''failed to authenticate using '' @ mechanism cred))\<rparr>
                   else c)
         in (authStore, c', (errorObject c', ResBool False))))"

text \<open>
  The callback that \<^verbatim>\<open>execute\<close> hands to \<^verbatim>\<open>_authenticateSingleConnection\<close>, run on
  one outcome: the store and the closure after, and the call of \<^verbatim>\<open>callback\<close> if it
  makes one.
\<close>

definition auth_callback :: "credentials \<Rightarrow> credentials list \<Rightarrow> auth_closure \<Rightarrow> outcome
    \<Rightarrow> error + (credentials list \<times> auth_closure \<times> auth_call option)" where
  "auth_callback cred authStore c out =
     (case auth_sort_outcome out (c\<lparr>count := count c - 1\<rparr>) of
        Inl e \<Rightarrow> Inl e
      | Inr c' \<Rightarrow>
          if count c' \<noteq> 0 then Inr (authStore, c', None)
          else (case auth_finish cred authStore c' of
                  (authStore', c'', call) \<Rightarrow> Inr (authStore', c'', Some call)))"

text \<open>
  The outcomes of the attempts reach the callback one by one, in the order of their
  arrival: the store after, the calls of \<^verbatim>\<open>callback\<close> made, and the exception that
  ended the run, if one was thrown.
\<close>

fun auth_join :: "credentials \<Rightarrow> credentials list \<Rightarrow> auth_closure \<Rightarrow> outcome list
    \<Rightarrow> credentials list \<times> auth_call list \<times> error option" where
  "auth_join cred authStore c [] = (authStore, [], None)"
| "auth_join cred authStore c (out # outs) =
     (case auth_callback cred authStore c out of
        Inl e \<Rightarrow> (authStore, [], Some e)
      | Inr (authStore', c', call) \<Rightarrow>
          (case auth_join cred authStore' c' outs of
             (s, calls, thrown) \<Rightarrow> (s, (case call of None \<Rightarrow> [] | Some x \<Rightarrow> [x]) @ calls, thrown)))"

text \<open>
  The loop \<^verbatim>\<open>while (connections.length > 0) executeInNextTick(connections.shift())\<close>
  on the caller's array and the queue of the next tick: the array and the queue after.
\<close>

fun dispatch_loop :: "'c list \<Rightarrow> 'c list \<Rightarrow> 'c list \<times> 'c list" where
  "dispatch_loop [] ticks = ([], ticks)"
| "dispatch_loop (connection # rest) ticks = dispatch_loop rest (ticks @ [connection])"

text \<open>
  \<^verbatim>\<open>AuthProvider._auth\<close>. The single-connection routine is abstract in the class;
  \<open>attempts\<close> gives, for the connections whose attempts were started, the outcomes
  in the order in which they arrive.
\<close>

record 'c auth_run =
  authStore_after :: "credentials list"
  connections_after :: "'c list"
  attempted :: "'c list"
  callback_calls :: "auth_call list"
  uncaught :: "error option"

definition auth :: "('c list \<Rightarrow> outcome list) \<Rightarrow> credentials list \<Rightarrow> 'c list \<Rightarrow> credentials
    \<Rightarrow> 'c auth_run" where
  "auth attempts authStore connections cred =
     (if length connections = 0
      then \<lparr>authStore_after = authStore, connections_after = connections, attempted = [],
            callback_calls = [(None, ResNull)], uncaught = None\<rparr>
      else
        (case dispatch_loop connections [] of
           (connections', ticks) \<Rightarrow>
             (case auth_join cred authStore
                     \<lparr>count = int (length connections), numberOfValidConnections = 0,
                      errorObject = None\<rparr>
                     (attempts ticks) of
                (s, calls, thrown) \<Rightarrow>
                  \<lparr>authStore_after = s, connections_after = connections', attempted = ticks,
                   callback_calls = calls, uncaught = thrown\<rparr>)))"

text \<open>
  \<^verbatim>\<open>AuthProvider.reauthenticate\<close>. Its loop runs the synchronous part of every
  \<^verbatim>\<open>_auth\<close> call first; the attempts run on later ticks. \<open>rs_invocations\<close> is not a
  variable of the source: it logs each call of \<^verbatim>\<open>_auth\<close> with the contents of the
  connections array at that moment.
\<close>

record 'c reauth_state =
  rs_connections :: "'c list"
  rs_count :: int
  rs_pending :: "(credentials \<times> 'c list) list"
  rs_calls :: "auth_call list"
  rs_invocations :: "(credentials \<times> 'c list) list"

text \<open>\<^verbatim>\<open>function(err) { count = count - 1; if (count === 0) callback(err, null); }\<close>\<close>

definition reauth_callback :: "error option \<Rightarrow> 'c reauth_state \<Rightarrow> 'c reauth_state" where
  "reauth_callback err s =
     (let s' = s\<lparr>rs_count := rs_count s - 1\<rparr>
      in if rs_count s' = 0 then s'\<lparr>rs_calls := rs_calls s' @ [(err, ResNull)]\<rparr> else s')"

text \<open>The synchronous part of one \<^verbatim>\<open>this._auth(writeCommand, connections, authStore[i], ...)\<close>.\<close>

definition reauth_dispatch :: "credentials \<Rightarrow> 'c reauth_state \<Rightarrow> 'c reauth_state" where
  "reauth_dispatch cred s =
     (let s1 = s\<lparr>rs_invocations := rs_invocations s @ [(cred, rs_connections s)]\<rparr>
      in if length (rs_connections s1) = 0 then reauth_callback None s1
         else (case dispatch_loop (rs_connections s1) [] of
                 (connections', ticks) \<Rightarrow>
                   s1\<lparr>rs_connections := connections',
                      rs_pending := rs_pending s1 @ [(cred, ticks)]\<rparr>))"

fun reauth_loop :: "credentials list \<Rightarrow> 'c reauth_state \<Rightarrow> 'c reauth_state" where
  "reauth_loop [] s = s"
| "reauth_loop (cred # rest) s = reauth_loop rest (reauth_dispatch cred s)"

text \<open>The later ticks: the attempts of each pending \<^verbatim>\<open>_auth\<close> call arrive.\<close>

fun reauth_ticks :: "(credentials \<Rightarrow> 'c list \<Rightarrow> outcome list) \<Rightarrow> (credentials \<times> 'c list) list
    \<Rightarrow> credentials list \<Rightarrow> 'c reauth_state \<Rightarrow> credentials list \<times> 'c reauth_state \<times> error option" where
  "reauth_ticks attempts [] authStore s = (authStore, s, None)"
| "reauth_ticks attempts ((cred, ticks) # pending) authStore s =
     (case auth_join cred authStore
             \<lparr>count = int (length ticks), numberOfValidConnections = 0, errorObject = None\<rparr>
             (attempts cred ticks) of
        (authStore', calls, thrown) \<Rightarrow>
          (let s' = fold (\<lambda>call. reauth_callback (fst call)) calls s
           in case thrown of
                Some e \<Rightarrow> (authStore', s', Some e)
              | None \<Rightarrow> reauth_ticks attempts pending authStore' s'))"

record 'c reauth_run =
  reauth_authStore :: "credentials list"
  reauth_connections :: "'c list"
  reauth_calls :: "auth_call list"
  reauth_invocations :: "(credentials \<times> 'c list) list"
  reauth_uncaught :: "error option"

definition reauthenticate :: "(credentials \<Rightarrow> 'c list \<Rightarrow> outcome list) \<Rightarrow> credentials list
    \<Rightarrow> 'c list \<Rightarrow> 'c reauth_run" where
  "reauthenticate attempts authStore connections =
     (let snapshot = authStore in
      if length snapshot = 0
      then \<lparr>reauth_authStore = authStore, reauth_connections = connections,
            reauth_calls = [(None, ResNull)], reauth_invocations = [], reauth_uncaught = None\<rparr>
      else
        (let s = reauth_loop snapshot
                   \<lparr>rs_connections = connections, rs_count = int (length snapshot),
                    rs_pending = [], rs_calls = [], rs_invocations = []\<rparr>
         in case reauth_ticks attempts (rs_pending s) authStore s of
              (authStore', s', thrown) \<Rightarrow>
                \<lparr>reauth_authStore = authStore', reauth_connections = rs_connections s',
                 reauth_calls = rs_calls s', reauth_invocations = rs_invocations s',
                 reauth_uncaught = thrown\<rparr>))"

text \<open>\<^verbatim>\<open>typeof v === 'string'\<close>\<close>

definition is_string :: "jsval \<Rightarrow> bool" where
  "is_string v = (case v of JStr _ \<Rightarrow> True | _ \<Rightarrow> False)"

section \<open>Outcomes of the attempts, as the claims word them\<close>

text \<open>
  The callback received something: an error, or a reply that is not \<^verbatim>\<open>null\<close>. (With
  neither, \<^verbatim>\<open>r.result\<close> throws.)
\<close>

definition outcome_received :: "outcome \<Rightarrow> bool" where
  "outcome_received out = (fst out \<noteq> None \<or> snd out \<noteq> RNull)"

text \<open>
  An outcome is valid when the error is absent and the result has neither a truthy
  \<^verbatim>\<open>$err\<close> nor a truthy \<^verbatim>\<open>errmsg\<close>.
\<close>

definition outcome_valid :: "outcome \<Rightarrow> bool" where
  "outcome_valid out =
     (fst out = None \<and>
      (case snd out of
         RReply d \<Rightarrow> \<not> truthy (r_dollar_err d) \<and> \<not> truthy (r_errmsg d)
       | _ \<Rightarrow> True))"

text \<open>
  Validity as the claim C3 words it: the error is absent and the result carries neither
  a \<^verbatim>\<open>$err\<close> nor an \<^verbatim>\<open>errmsg\<close> field.
\<close>

definition outcome_valid_claimed :: "outcome \<Rightarrow> bool" where
  "outcome_valid_claimed out =
     (fst out = None \<and>
      (case snd out of
         RReply d \<Rightarrow> r_dollar_err d = JUndefined \<and> r_errmsg d = JUndefined
       | _ \<Rightarrow> True))"

text \<open>The error that an outcome leaves in \<^verbatim>\<open>errorObject\<close>, if it leaves one.\<close>

definition outcome_error :: "outcome \<Rightarrow> error option" where
  "outcome_error out =
     (case out of
        (Some err, r) \<Rightarrow> Some err
      | (None, RReply d) \<Rightarrow>
          if truthy (r_dollar_err d) \<or> truthy (r_errmsg d) then Some (ErrorDocument d) else None
      | (None, _) \<Rightarrow> None)"

text \<open>The last error observed over outcomes in their order of arrival.\<close>

fun last_observed_error :: "error option \<Rightarrow> outcome list \<Rightarrow> error option" where
  "last_observed_error seen [] = seen"
| "last_observed_error seen (out # outs) =
     last_observed_error (case outcome_error out of Some e \<Rightarrow> Some e | None \<Rightarrow> seen) outs"

text \<open>
  The verdict for a number of valid outcomes and a last observed error: the store after
  and the call of \<^verbatim>\<open>callback\<close>.
\<close>

definition auth_verdict :: "credentials \<Rightarrow> credentials list \<Rightarrow> nat \<Rightarrow> error option
    \<Rightarrow> credentials list \<times> auth_call" where
  "auth_verdict cred authStore valid seen =
     (if valid > 0 then (addCredentials authStore cred, (None, ResBool True))
      else (authStore,
            (Some (case seen of
                     Some e \<Rightarrow> e
                   | None \<Rightarrow> MongoError (''failed to authenticate using '' @ mechanism cred)),
             ResBool False)))"

text \<open>
  The error that the replay of one credential produces: the first argument of the call
  that \<^verbatim>\<open>_auth\<close> makes of its callback, on the connections array as it finds it.
\<close>

definition replay_error :: "(credentials \<Rightarrow> 'c list \<Rightarrow> outcome list) \<Rightarrow> credentials \<Rightarrow> 'c list
    \<Rightarrow> error option" where
  "replay_error attempts cred connections =
     (case callback_calls (auth (attempts cred) [] connections cred) of
        [] \<Rightarrow> None
      | call # _ \<Rightarrow> fst call)"

text \<open>
  The error of the last replay that produced one, or \<open>None\<close> (\<^verbatim>\<open>null\<close>) if none did, as
  the claim C1 words what \<^verbatim>\<open>reauthenticate\<close> reports.
\<close>

definition last_error :: "error option list \<Rightarrow> error option" where
  "last_error errs = (case filter (\<lambda>e. e \<noteq> None) errs of [] \<Rightarrow> None | e # es \<Rightarrow> last (e # es))"

section \<open>Concrete inputs\<close>

text \<open>
  A platform, a server and credentials on which the model can be run. They stand in
  for the real functions: the digests are constant, \<open>base64_decode\<close> reads the text
  as bytes, and \<open>pbkdf2Sync\<close> rejects a negative iteration count and \<^verbatim>\<open>NaN\<close> and gives
  a key of the requested length otherwise. The general theorems hold for every platform.
\<close>

definition test_platform :: platform where
  "test_platform =
     \<lparr>md5_hex_digest = (\<lambda>s. ''d41d8cd98f00b204e9800998ecf8427e''),
      hash_digest = (\<lambda>m b. replicate (hiLengthMap m) 1),
      hmac_digest = (\<lambda>m k t. replicate (hiLengthMap m) 2),
      pbkdf2Sync = (\<lambda>data salt iterations keylen m.
         case iterations of
           NaN \<Rightarrow> Inl (TypeError ''iterations is out of range'')
         | Num i \<Rightarrow> if i < 0 then Inl (TypeError ''iterations is out of range'')
                    else Inr (replicate keylen 3)),
      base64_decode = (\<lambda>s. Buffer_from s),
      saslprep = None\<rparr>"

definition test_credentials :: credentials where
  "test_credentials =
     \<lparr>username = JStr ''user'', password = JStr ''pencil'', source = ''admin'',
      mechanism = ''SCRAM-SHA-1''\<rparr>"

text \<open>A successful reply with the given payload text, not yet done.\<close>

definition test_reply :: "string \<Rightarrow> document" where
  "test_reply text =
     \<lparr>r_dollar_err = JUndefined, r_errmsg = JUndefined, r_payload = Some text,
      r_conversationId = JNumber (Num 1), r_done = JBool False\<rparr>"

text \<open>A server that answers every command with the same first-round payload.\<close>

definition test_server :: "string \<Rightarrow> unit send_command" where
  "test_server text connection q = (None, RReply (test_reply text))"

text \<open>
  A platform whose \<^verbatim>\<open>pbkdf2Sync\<close> also rejects the iteration count 0, as the Node
  versions do that require a count of at least 1.
\<close>

definition test_platform_strict :: platform where
  "test_platform_strict =
     test_platform\<lparr>pbkdf2Sync := (\<lambda>data salt iterations keylen m.
         case iterations of
           NaN \<Rightarrow> Inl (TypeError ''iterations is out of range'')
         | Num i \<Rightarrow> if i < 1 then Inl (TypeError ''iterations is out of range'')
                    else Inr (replicate keylen 3))\<rparr>"

text \<open>
  A server whose replies to \<^verbatim>\<open>saslContinue\<close> carry another conversation identifier
  (2) than its reply to \<^verbatim>\<open>saslStart\<close> (1).
\<close>

definition test_server_other_id :: "string \<Rightarrow> unit send_command" where
  "test_server_other_id text connection q =
     (case cmd q of
        SaslStart mech payload \<Rightarrow> (None, RReply (test_reply text))
      | SaslContinue cid payload \<Rightarrow>
          (None, RReply ((test_reply text)\<lparr>r_conversationId := JNumber (Num 2)\<rparr>)))"

text \<open>
  Outcomes for two connections: one attempt fails and one succeeds; both fail; and a
  single reply whose \<^verbatim>\<open>errmsg\<close> is the empty string. A second credential.
\<close>

definition test_attempts :: "unit list \<Rightarrow> outcome list" where
  "test_attempts ks = [(Some (OtherError ''connection closed''), RNull),
                       (None, RReply (test_reply []))]"

definition test_failures :: "unit list \<Rightarrow> outcome list" where
  "test_failures ks = [(Some (OtherError ''connection closed''), RNull),
                       (None, RReply ((test_reply [])\<lparr>r_errmsg := JStr ''auth failed''\<rparr>))]"

definition test_empty_errmsg :: "unit list \<Rightarrow> outcome list" where
  "test_empty_errmsg ks = [(None, RReply ((test_reply [])\<lparr>r_errmsg := JStr []\<rparr>))]"

definition test_credentials_other :: credentials where
  "test_credentials_other = test_credentials\<lparr>source := ''reporting''\<rparr>"

text \<open>A server that accepts the first credential and rejects every other, on every connection.\<close>

definition test_replays :: "credentials \<Rightarrow> unit list \<Rightarrow> outcome list" where
  "test_replays c ks =
     (if source c = ''admin'' then map (\<lambda>k. (None, RReply (test_reply []))) ks
      else map (\<lambda>k. (None, RReply ((test_reply [])\<lparr>r_errmsg := JStr ''auth failed''\<rparr>))) ks)"

text \<open>The invariant of the cache: the counter counts the entries, each key once, at most 200.\<close>

definition cache_ok :: "scram_globals \<Rightarrow> bool" where
  "cache_ok g = (hiCacheCount g = length (hiCache g) \<and> distinct (map fst (hiCache g))
                 \<and> length (hiCache g) \<le> 200)"

text \<open>Calls of \<^verbatim>\<open>HI\<close> with \<open>n\<close> different iteration counts, and their cache keys.\<close>

definition test_calls :: "nat \<Rightarrow> (jsval \<times> buffer \<times> jsnum \<times> crypto_method) list" where
  "test_calls n = map (\<lambda>i. (JStr ''pw'', [], Num (int i), Sha1)) [1 ..< Suc n]"

definition test_key :: "nat \<Rightarrow> string" where
  "test_key i = hi_key (JStr ''pw'') [] (Num (int i))"

section \<open>Properties\<close>

lemma xor_res_length: "length (xor_res a b) = max (length a) (length b)"
  by (simp add: xor_res_def)

lemma xor_res_nth:
  "i < max (length a) (length b) \<Longrightarrow> xor_res a b ! i = xor_operand a i XOR xor_operand b i"
  by (simp add: xor_res_def)

lemma xor_res_involutive: "length a = length b \<Longrightarrow> xor_res (xor_res a b) b = a"
  by (rule nth_equalityI) (simp_all add: xor_res_length xor_res_nth xor_operand_def xor.assoc)

subsection \<open>Username escaping\<close>

text \<open>
  C2. The specification has every \<^verbatim>\<open>=\<close> and every \<^verbatim>\<open>,\<close> of the username escaped.
  \<^verbatim>\<open>String.prototype.replace\<close> with a string pattern replaces the first occurrence
  only: for the username \<^verbatim>\<open>a==b\<close> the code sends \<^verbatim>\<open>a=3D=b\<close>, where the escaping of
  every occurrence gives \<^verbatim>\<open>a=3D=3Db\<close>.
\<close>

theorem escape_username_first_occurrence_only:
  "escape_username ''a==b'' = ''a=3D=b'' \<and> escape_every_spec ''a==b'' = ''a=3D=3Db''"
  by (simp add: escape_username_def escape_every_spec_def)

subsection \<open>The \<^verbatim>\<open>xor\<close> helper\<close>

text \<open>
  C4, as stated, fails: \<^verbatim>\<open>xor\<close> returns the base64 text of the bytes, and a text
  argument is read as its own bytes, not decoded. For \<^verbatim>\<open>a = [1]\<close> and \<^verbatim>\<open>b = [2]\<close>,
  \<^verbatim>\<open>xor(xor(a, b), b)\<close> is the text \<^verbatim>\<open>Q3c9PQ==\<close>, which is neither \<^verbatim>\<open>a\<close> read as text
  nor the base64 text of \<^verbatim>\<open>a\<close>.
\<close>

theorem xor_base64_not_involutive:
  "xor_js (AString (xor_js (ABuffer [1]) (ABuffer [2]))) (ABuffer [2]) = ''Q3c9PQ==''
   \<and> ''Q3c9PQ=='' \<noteq> Buffer_toString [1]
   \<and> ''Q3c9PQ=='' \<noteq> toString_base64 [1]"
  by (simp add: xor_js_def xor_res_def xor_operand_def Buffer_from_def Buffer_toString_def
      base64_char_def base64_alphabet_def upt_rec)

text \<open>
  C4, amended: for buffers \<^verbatim>\<open>a\<close> and \<^verbatim>\<open>b\<close> of equal length, \<^verbatim>\<open>xor(a, b)\<close> is the base64
  text of the byte-wise exclusive or, and that byte-wise operation is involutive:
  the bytes that \<^verbatim>\<open>xor(a, b)\<close> encodes, combined with \<^verbatim>\<open>b\<close> again, are \<^verbatim>\<open>a\<close>, so that
  \<^verbatim>\<open>xor\<close> of them and \<^verbatim>\<open>b\<close> is the base64 text of \<^verbatim>\<open>a\<close>.
\<close>

theorem xor_bytes_involutive:
  assumes "length a = length b"
  shows "xor_js (ABuffer a) (ABuffer b) = toString_base64 (xor_res a b)
       \<and> xor_res (xor_res a b) b = a
       \<and> xor_js (ABuffer (xor_res a b)) (ABuffer b) = toString_base64 a"
  using assms by (simp add: xor_js_def xor_res_involutive)

theorem xor_bytes_involutive_witness:
  "xor_js (ABuffer [1, 2]) (ABuffer [3, 4]) = toString_base64 (xor_res [1, 2] [3, 4])
   \<and> xor_res (xor_res [1, 2] [3, 4]) [3, 4] = [1, 2]
   \<and> xor_js (ABuffer (xor_res [1, 2] [3, 4])) (ABuffer [3, 4]) = toString_base64 [1, 2]"
  using xor_bytes_involutive [of "[1, 2]" "[3, 4]"] by simp

subsection \<open>The legacy password digest\<close>

lemma passwordDigest_ok:
  "pw \<noteq> [] \<Longrightarrow>
   passwordDigest p (JStr u) (JStr pw) = Inr (md5_hex_digest p (u @ '':mongo:'' @ pw))"
  by (simp add: passwordDigest_def)

lemma passwordDigest_fails_iff:
  "(\<exists>msg. passwordDigest p user pass = Inl (MongoError msg))
     = (\<not> is_string user \<or> \<not> is_string pass \<or> pass = JStr [])"
  by (auto simp add: passwordDigest_def is_string_def split: jsval.splits)

lemma executeScram_sha1_invalid:
  "passwordDigest p (username c) (password c) = Inl e \<Longrightarrow>
   executeScram p Sha1 server connection c nonce g = (Threw e, [], g)"
  by (simp add: executeScram_def processPassword_def)

text \<open>
  C8, as stated, fails: an empty username is not rejected. \<^verbatim>\<open>passwordDigest\<close> checks
  the type of the username, the type of the password and that the password is not
  empty; for the username \<^verbatim>\<open>''\<close> and the password \<^verbatim>\<open>pencil\<close> it returns the digest
  of \<^verbatim>\<open>:mongo:pencil\<close>.
\<close>

theorem passwordDigest_accepts_empty_username:
  "passwordDigest test_platform (JStr []) (JStr ''pencil'')
     = Inr (md5_hex_digest test_platform '':mongo:pencil'')"
  by (simp add: passwordDigest_def)

text \<open>
  C8, amended: for a string username and a non-empty string password the SHA-1
  legacy digest is the hex MD5 of username, \<^verbatim>\<open>:mongo:\<close> and password; it fails with a
  \<^verbatim>\<open>MongoError\<close> exactly when the username is not a string or the password is not a
  non-empty string; and in the SHA-1 mechanism this failure ends the attempt before
  any command is written.
\<close>

theorem passwordDigest_validates_before_network:
  "(pw \<noteq> [] \<longrightarrow>
      passwordDigest p (JStr u) (JStr pw) = Inr (md5_hex_digest p (u @ '':mongo:'' @ pw)))
   \<and> ((\<exists>msg. passwordDigest p user pass = Inl (MongoError msg))
        = (\<not> is_string user \<or> \<not> is_string pass \<or> pass = JStr []))
   \<and> (passwordDigest p (username c) (password c) = Inl e \<longrightarrow>
        executeScram p Sha1 server connection c nonce g = (Threw e, [], g))"
  using passwordDigest_ok [of pw p u] passwordDigest_fails_iff [of p user pass]
    executeScram_sha1_invalid [of p c e server connection nonce g]
  by blast

theorem passwordDigest_validates_before_network_witness:
  "passwordDigest test_platform (JStr ''user'') (JStr ''pencil'')
     = Inr (md5_hex_digest test_platform ''user:mongo:pencil'')
   \<and> (\<exists>msg. passwordDigest test_platform (JStr ''user'') (JStr []) = Inl (MongoError msg))
   \<and> executeScram test_platform Sha1 (test_server []) () (test_credentials\<lparr>password := JStr []\<rparr>)
        ''nonce'' initial_globals
      = (Threw (MongoError ''password cannot be empty''), [], initial_globals)"
  using passwordDigest_validates_before_network
    [where pw = "''pencil''" and p = test_platform and u = "''user''" and user = "JStr ''user''"
       and pass = "JStr []" and c = "test_credentials\<lparr>password := JStr []\<rparr>"
       and e = "MongoError ''password cannot be empty''" and server = "test_server []"
       and connection = "()" and nonce = "''nonce''" and g = initial_globals]
  by (simp add: passwordDigest_def test_credentials_def)

subsection \<open>The callback of the continuation round\<close>

lemma on_saslContinue_cases:
  "on_saslContinue server connection db sent (err, r) =
     (case r of
        RReply d \<Rightarrow>
          if r_done d = JBool False
          then (Callback
                  (fst (server connection
                          (buildCommand (db @ ''.$cmd'') (SaslContinue (r_conversationId d) []))))
                  (snd (server connection
                          (buildCommand (db @ ''.$cmd'') (SaslContinue (r_conversationId d) [])))),
                sent @ [buildCommand (db @ ''.$cmd'') (SaslContinue (r_conversationId d) [])])
          else (Callback err r, sent)
      | _ \<Rightarrow> (Callback err r, sent))"
  by (simp add: on_saslContinue_def Let_def case_prod_beta split: jsreply.splits)

subsection \<open>The cache key\<close>

lemma is_digit_char_of: "k < 10 \<Longrightarrow> is_digit (char_of (48 + k :: nat))"
  by (simp add: is_digit_def)

lemma digit_value_char_of: "k < 10 \<Longrightarrow> (of_char (char_of (48 + k :: nat)) :: nat) - 48 = k"
  by simp

lemma nat_toString_digits: "\<forall>c \<in> set (nat_toString n). is_digit c"
proof (induction n rule: nat_toString.induct)
  case (1 n)
  show ?case
  proof (cases "n < 10")
    case True
    then show ?thesis by (simp add: nat_toString.simps [of n] is_digit_def)
  next
    case False
    have "is_digit (char_of (48 + n mod 10))" by (rule is_digit_char_of) simp
    with False 1 show ?thesis by (simp add: nat_toString.simps [of n])
  qed
qed

lemma nat_toString_nonempty: "nat_toString n \<noteq> []"
  by (simp add: nat_toString.simps [of n])

lemma digits_value_snoc: "digits_value (ds @ [c]) = digits_value ds * 10 + (of_char c - 48)"
  by (simp add: digits_value_def)

lemma digits_value_nat_toString: "digits_value (nat_toString n) = n"
proof (induction n rule: nat_toString.induct)
  case (1 n)
  show ?case
  proof (cases "n < 10")
    case True
    then show ?thesis by (simp add: nat_toString.simps [of n] digits_value_def)
  next
    case False
    have "(of_char (char_of (48 + n mod 10 :: nat)) :: nat) - 48 = n mod 10"
      by (rule digit_value_char_of) simp
    with False 1 show ?thesis
      by (simp add: nat_toString.simps [of n] digits_value_snoc)
  qed
qed

lemma nat_toString_inj: "nat_toString m = nat_toString n \<Longrightarrow> m = n"
  by (metis digits_value_nat_toString)

lemma underscore_not_digit: "\<not> is_digit CHR ''_''"  "\<not> is_digit CHR ''-''" "\<not> is_digit CHR ''N''"
  by (simp_all add: is_digit_def)

lemma nat_toString_no_underscore: "CHR ''_'' \<notin> set (nat_toString n)"
  using nat_toString_digits [of n] underscore_not_digit by blast

lemma nat_toString_hd_digit: "is_digit (hd (nat_toString n))"
  using nat_toString_digits [of n] nat_toString_nonempty [of n] by (simp add: hd_in_set)

lemma number_toString_no_underscore: "CHR ''_'' \<notin> set (number_toString i)"
  by (cases i) (simp_all add: nat_toString_no_underscore)

lemma number_toString_hd: "hd (number_toString (Num b)) \<noteq> CHR ''N''"
proof (cases "b < 0")
  case True
  then show ?thesis by simp
next
  case False
  have "is_digit (hd (nat_toString (nat b)))" by (rule nat_toString_hd_digit)
  then have "hd (nat_toString (nat b)) \<noteq> CHR ''N''"
    using underscore_not_digit(3) by metis
  with False show ?thesis by simp
qed

lemma nat_toString_not_minus: "nat_toString n \<noteq> CHR ''-'' # s"
proof
  assume "nat_toString n = CHR ''-'' # s"
  then have "hd (nat_toString n) = CHR ''-''" by simp
  with nat_toString_hd_digit [of n] underscore_not_digit(2) show False by simp
qed

lemma number_toString_inj: "number_toString i = number_toString j \<Longrightarrow> i = j"
proof (cases i; cases j)
  fix a b assume ij: "i = Num a" "j = Num b" and eq: "number_toString i = number_toString j"
  show "i = j"
  proof (cases "a < 0"; cases "b < 0")
    assume "a < 0" "b < 0"
    with eq ij have "nat (- a) = nat (- b)" by (simp add: nat_toString_inj)
    with \<open>a < 0\<close> \<open>b < 0\<close> ij show ?thesis by simp
  next
    assume "a < 0" "\<not> b < 0"
    with eq ij nat_toString_not_minus [of "nat b" "nat_toString (nat (- a))"] show ?thesis by simp
  next
    assume "\<not> a < 0" "b < 0"
    with eq ij nat_toString_not_minus [of "nat a" "nat_toString (nat (- b))"] show ?thesis by simp
  next
    assume "\<not> a < 0" "\<not> b < 0"
    with eq ij have "nat a = nat b" by (simp add: nat_toString_inj)
    with \<open>\<not> a < 0\<close> \<open>\<not> b < 0\<close> ij show ?thesis by simp
  qed
next
  fix b assume ij: "i = NaN" "j = Num b" and eq: "number_toString i = number_toString j"
  from eq ij have "number_toString (Num b) = ''NaN''" by (simp only: number_toString.simps(1))
  then have "hd (number_toString (Num b)) = hd ''NaN''" by (rule arg_cong)
  with number_toString_hd [of b] show "i = j" by simp
next
  fix a assume ij: "i = Num a" "j = NaN" and eq: "number_toString i = number_toString j"
  from eq ij have "number_toString (Num a) = ''NaN''" by (simp only: number_toString.simps(1))
  then have "hd (number_toString (Num a)) = hd ''NaN''" by (rule arg_cong)
  with number_toString_hd [of a] show "i = j" by simp
qed simp

lemma base64_char_in_alphabet: "base64_char n \<in> set base64_alphabet"
  unfolding base64_char_def by (rule nth_mem) (simp add: base64_alphabet_def)

lemma base64_char_not_underscore: "base64_char n \<noteq> CHR ''_''"
proof -
  have "CHR ''_'' \<notin> set base64_alphabet" by (simp add: base64_alphabet_def)
  with base64_char_in_alphabet [of n] show ?thesis by metis
qed

lemma toString_base64_no_underscore: "CHR ''_'' \<notin> set (toString_base64 b)"
  by (induction b rule: toString_base64.induct) (simp_all add: Let_def base64_char_not_underscore [symmetric])

lemma split_at_last:
  "x \<notin> set v \<Longrightarrow> x \<notin> set v' \<Longrightarrow> u @ x # v = u' @ x # v' \<Longrightarrow> u = u' \<and> v = v'"
proof -
  assume a: "x \<notin> set v" "x \<notin> set v'" and eq: "u @ x # v = u' @ x # v'"
  have gen: "x \<notin> set s \<Longrightarrow> x \<notin> set s' \<Longrightarrow> s @ x # t = s' @ x # t' \<Longrightarrow> s = s' \<and> t = t'" for s s' t t' :: "'a list"
  proof (induction s arbitrary: s')
    case Nil
    then show ?case by (cases s') auto
  next
    case (Cons y ys)
    then show ?case by (cases s') auto
  qed
  from eq have "rev v @ x # rev u = rev v' @ x # rev u'"
    by (metis rev.simps(2) rev_append append_assoc append_Cons append_Nil)
  with a gen [of "rev v" "rev v'" "rev u" "rev u'"] show ?thesis by simp
qed

lemma hi_key_string:
  "hi_key (JStr d) s i = d @ CHR ''_'' # (toString_base64 s @ CHR ''_'' # number_toString i)"
  by (simp add: hi_key_def)

lemma hi_key_exact:
  "(hi_key (JStr d) s i = hi_key (JStr d') s' i')
     = (d = d' \<and> toString_base64 s = toString_base64 s' \<and> i = i')"
proof
  assume eq: "hi_key (JStr d) s i = hi_key (JStr d') s' i'"
  then have "(d @ CHR ''_'' # toString_base64 s) @ CHR ''_'' # number_toString i
           = (d' @ CHR ''_'' # toString_base64 s') @ CHR ''_'' # number_toString i'"
    by (simp add: hi_key_string)
  then have 1: "d @ CHR ''_'' # toString_base64 s = d' @ CHR ''_'' # toString_base64 s'"
    and 2: "number_toString i = number_toString i'"
    using split_at_last [OF number_toString_no_underscore number_toString_no_underscore] by blast+
  from 1 have "d = d' \<and> toString_base64 s = toString_base64 s'"
    using split_at_last [OF toString_base64_no_underscore toString_base64_no_underscore] by blast
  with 2 show "d = d' \<and> toString_base64 s = toString_base64 s' \<and> i = i'"
    by (simp add: number_toString_inj)
next
  assume "d = d' \<and> toString_base64 s = toString_base64 s' \<and> i = i'"
  then show "hi_key (JStr d) s i = hi_key (JStr d') s' i'" by (simp add: hi_key_string)
qed


subsection \<open>The salted-password cache\<close>

lemma update_absent: "k \<notin> fst ` set al \<Longrightarrow> AList.update k v al = al @ [(k, v)]"
  by (induction al) auto

lemma HI_hit:
  "map_of (hiCache g) (hi_key data salt it) = Some v \<Longrightarrow> HI p g data salt it m = (Inr v, g)"
  by (simp add: HI_def)

lemma HI_miss_throw:
  "map_of (hiCache g) (hi_key data salt it) = None \<Longrightarrow>
   pbkdf2Sync p data salt it (hiLengthMap m) m = Inl e \<Longrightarrow>
   HI p g data salt it m = (Inl e, g\<lparr>derivations := derivations g @ [(data, salt, it)]\<rparr>)"
  by (simp add: HI_def)

lemma HI_miss_insert:
  "map_of (hiCache g) (hi_key data salt it) = None \<Longrightarrow>
   pbkdf2Sync p data salt it (hiLengthMap m) m = Inr v \<Longrightarrow>
   HI p g data salt it m =
     (Inr v,
      if hiCacheCount g \<ge> 200
      then \<lparr>hiCache = [(hi_key data salt it, v)], hiCacheCount = 1,
            derivations = derivations g @ [(data, salt, it)]\<rparr>
      else \<lparr>hiCache = hiCache g @ [(hi_key data salt it, v)], hiCacheCount = hiCacheCount g + 1,
            derivations = derivations g @ [(data, salt, it)]\<rparr>)"
  using update_absent [of "hi_key data salt it" "hiCache g" v]
  by (simp add: HI_def hiCachePurge_def Let_def map_of_eq_None_iff [symmetric])

lemma HI_cases:
  obtains (hit) v where "map_of (hiCache g) (hi_key data salt it) = Some v"
  | (throw) e where "map_of (hiCache g) (hi_key data salt it) = None"
      "pbkdf2Sync p data salt it (hiLengthMap m) m = Inl e"
  | (insert) v where "map_of (hiCache g) (hi_key data salt it) = None"
      "pbkdf2Sync p data salt it (hiLengthMap m) m = Inr v"
  by (cases "map_of (hiCache g) (hi_key data salt it)";
      cases "pbkdf2Sync p data salt it (hiLengthMap m) m") auto

lemma HI_cache_ok: "cache_ok g \<Longrightarrow> cache_ok (snd (HI p g data salt it m))"
proof (cases rule: HI_cases [where g = g and data = data and salt = salt and it = it and p = p and m = m])
  case (hit v)
  assume "cache_ok g"
  with hit show ?thesis by (simp add: HI_hit)
next
  case (throw e)
  assume "cache_ok g"
  with throw show ?thesis by (simp add: HI_miss_throw cache_ok_def)
next
  case (insert v)
  assume ok: "cache_ok g"
  from insert(1) have "hi_key data salt it \<notin> fst ` set (hiCache g)"
    by (simp add: map_of_eq_None_iff)
  with ok insert show ?thesis by (auto simp add: HI_miss_insert cache_ok_def)
qed

lemma HI_calls_cache_ok: "cache_ok g \<Longrightarrow> cache_ok (HI_calls p cs g)"
  by (induction cs arbitrary: g) (auto simp add: HI_cache_ok)

lemma initial_cache_ok: "cache_ok initial_globals"
  by (simp add: cache_ok_def initial_globals_def)

lemma HI_result_cached:
  assumes "fst (HI p g data salt it m) = Inr v"
  shows "map_of (hiCache (snd (HI p g data salt it m))) (hi_key data salt it) = Some v"
proof (cases rule: HI_cases [where g = g and data = data and salt = salt and it = it and p = p and m = m])
  case (hit w)
  with assms show ?thesis by (simp add: HI_hit)
next
  case (throw e)
  with assms show ?thesis by (simp add: HI_miss_throw)
next
  case (insert w)
  with assms show ?thesis by (simp add: HI_miss_insert map_add_def)
qed

lemma HI_repeat:
  assumes "fst (HI p g data salt it m) = Inr v"
  shows "HI p' (snd (HI p g data salt it m)) data salt it m'
           = (Inr v, snd (HI p g data salt it m))"
  by (rule HI_hit) (rule HI_result_cached [OF assms])

lemma HI_purge:
  assumes "hiCacheCount g \<ge> 200" "map_of (hiCache g) (hi_key data salt it) = None"
    "pbkdf2Sync p data salt it (hiLengthMap m) m = Inr v"
  shows "hiCache (snd (HI p g data salt it m)) = [(hi_key data salt it, v)]
       \<and> hiCacheCount (snd (HI p g data salt it m)) = 1"
  using assms by (simp add: HI_miss_insert)

lemma HI_calls_append: "HI_calls p (cs @ ds) g = HI_calls p ds (HI_calls p cs g)"
  by (induction cs arbitrary: g) auto

lemma test_calls_Suc:
  "test_calls (Suc n) = test_calls n @ [(JStr ''pw'', [], Num (int (Suc n)), Sha1)]"
  by (simp add: test_calls_def)

lemma test_key_inj: "(test_key i = test_key j) = (i = j)"
  by (simp add: test_key_def hi_key_exact)

lemma test_calls_state:
  "n \<le> 200 \<Longrightarrow>
   HI_calls test_platform (test_calls n) initial_globals =
     \<lparr>hiCache = map (\<lambda>i. (test_key i, replicate 20 3)) [1 ..< Suc n],
      hiCacheCount = n,
      derivations = map (\<lambda>i. (JStr ''pw'', [], Num (int i))) [1 ..< Suc n]\<rparr>"
proof (induction n)
  case 0
  then show ?case by (simp add: test_calls_def initial_globals_def)
next
  case (Suc n)
  let ?g = "HI_calls test_platform (test_calls n) initial_globals"
  from Suc have g: "?g = \<lparr>hiCache = map (\<lambda>i. (test_key i, replicate 20 3)) [1 ..< Suc n],
      hiCacheCount = n,
      derivations = map (\<lambda>i. (JStr ''pw'', [], Num (int i))) [1 ..< Suc n]\<rparr>" by simp
  have "test_key (Suc n) \<notin> fst ` set (hiCache ?g)"
    by (auto simp add: g test_key_inj image_iff)
  then have miss: "map_of (hiCache ?g) (hi_key (JStr ''pw'') [] (Num (int (Suc n)))) = None"
    by (simp add: map_of_eq_None_iff test_key_def)
  have run: "pbkdf2Sync test_platform (JStr ''pw'') [] (Num (int (Suc n))) (hiLengthMap Sha1) Sha1
               = Inr (replicate 20 3)"
    by (simp add: test_platform_def hiLengthMap_def)
  have "hiCacheCount ?g < 200" using Suc.prems by (simp add: g)
  with HI_miss_insert [OF miss run] show ?case
    by (simp add: test_calls_Suc HI_calls_append g test_key_def)
qed


lemma test_cache_lookup:
  "map_of (map (\<lambda>i. (test_key i, v)) xs) (test_key j) = (if j \<in> set xs then Some v else None)"
  by (induction xs) (auto simp add: test_key_inj)

lemma test_state_lookup:
  "n \<le> 200 \<Longrightarrow>
   map_of (hiCache (HI_calls test_platform (test_calls n) initial_globals)) (test_key j)
     = (if 1 \<le> j \<and> j \<le> n then Some (replicate 20 3) else None)"
  by (simp only: test_calls_state scram_globals.simps test_cache_lookup) auto

lemma test_state_count:
  "n \<le> 200 \<Longrightarrow> hiCacheCount (HI_calls test_platform (test_calls n) initial_globals) = n"
  by (simp only: test_calls_state scram_globals.simps)

text \<open>
  C6. The cache key determines the triple of material (a string), base64 text of the
  salt and iteration count. A call of \<^verbatim>\<open>HI\<close> whose key is cached returns the cached
  value and leaves the module state as it is, whatever \<^verbatim>\<open>pbkdf2Sync\<close> would do: the
  iterated computation is not run. A call that returned a value is answered from the
  cache when repeated. After any sequence of calls from the empty cache, the cache holds
  at most 200 entries, each key once, and the counter is their number. When the counter
  has reached 200, the next insertion first clears the cache: afterwards it holds the
  new entry only, the counter is 1 and every other key misses.
\<close>

theorem HI_memoized_and_bounded:
  "((hi_key (JStr d) s i = hi_key (JStr d') s' i')
      = (d = d' \<and> toString_base64 s = toString_base64 s' \<and> i = i'))
   \<and> (map_of (hiCache g) (hi_key data salt it) = Some v \<longrightarrow>
        HI p g data salt it m = (Inr v, g))
   \<and> (fst (HI p g data salt it m) = Inr v \<longrightarrow>
        HI p' (snd (HI p g data salt it m)) data salt it m'
          = (Inr v, snd (HI p g data salt it m)))
   \<and> length (hiCache (HI_calls p cs initial_globals)) \<le> 200
   \<and> distinct (map fst (hiCache (HI_calls p cs initial_globals)))
   \<and> hiCacheCount (HI_calls p cs initial_globals) = length (hiCache (HI_calls p cs initial_globals))
   \<and> (hiCacheCount g \<ge> 200 \<and> map_of (hiCache g) (hi_key ndata nsalt nit) = None
        \<and> pbkdf2Sync p ndata nsalt nit (hiLengthMap m) m = Inr nv \<longrightarrow>
        hiCache (snd (HI p g ndata nsalt nit m)) = [(hi_key ndata nsalt nit, nv)]
        \<and> hiCacheCount (snd (HI p g ndata nsalt nit m)) = 1
        \<and> (\<forall>k. k \<noteq> hi_key ndata nsalt nit \<longrightarrow>
              map_of (hiCache (snd (HI p g ndata nsalt nit m))) k = None))"
proof -
  have ok: "cache_ok (HI_calls p cs initial_globals)"
    by (rule HI_calls_cache_ok) (rule initial_cache_ok)
  have purge: "hiCache (snd (HI p g ndata nsalt nit m)) = [(hi_key ndata nsalt nit, nv)]
        \<and> hiCacheCount (snd (HI p g ndata nsalt nit m)) = 1
        \<and> (\<forall>k. k \<noteq> hi_key ndata nsalt nit \<longrightarrow>
              map_of (hiCache (snd (HI p g ndata nsalt nit m))) k = None)"
    if "hiCacheCount g \<ge> 200" "map_of (hiCache g) (hi_key ndata nsalt nit) = None"
       "pbkdf2Sync p ndata nsalt nit (hiLengthMap m) m = Inr nv"
    using HI_purge [OF that] by simp
  show ?thesis
    using hi_key_exact [of d s i d' s' i'] HI_hit [of g data salt it v p m]
      HI_repeat [of p g data salt it m v p' m'] ok purge
    unfolding cache_ok_def by blast
qed

theorem HI_memoized_and_bounded_witness:
  "hiCacheCount (HI_calls test_platform (test_calls 200) initial_globals) = 200
   \<and> HI test_platform (HI_calls test_platform (test_calls 200) initial_globals)
        (JStr ''pw'') [] (Num 1) Sha1
      = (Inr (replicate 20 3), HI_calls test_platform (test_calls 200) initial_globals)
   \<and> length (hiCache (HI_calls test_platform (test_calls 200) initial_globals)) \<le> 200
   \<and> hiCache (snd (HI test_platform (HI_calls test_platform (test_calls 200) initial_globals)
                     (JStr ''pw'') [] (Num 201) Sha1))
      = [(hi_key (JStr ''pw'') [] (Num 201), replicate 20 3)]
   \<and> map_of (hiCache (snd (HI test_platform (HI_calls test_platform (test_calls 200) initial_globals)
                     (JStr ''pw'') [] (Num 201) Sha1))) (hi_key (JStr ''pw'') [] (Num 1)) = None"
proof -
  let ?g = "HI_calls test_platform (test_calls 200) initial_globals"
  have count: "hiCacheCount ?g = 200" by (simp add: test_state_count)
  have hit: "map_of (hiCache ?g) (hi_key (JStr ''pw'') [] (Num 1)) = Some (replicate 20 3)"
    using test_state_lookup [of 200 1] by (simp add: test_key_def)
  have miss: "map_of (hiCache ?g) (hi_key (JStr ''pw'') [] (Num 201)) = None"
    using test_state_lookup [of 200 201] by (simp add: test_key_def)
  have run: "pbkdf2Sync test_platform (JStr ''pw'') [] (Num 201) (hiLengthMap Sha1) Sha1
               = Inr (replicate 20 3)"
    by (simp add: test_platform_def hiLengthMap_def)
  have differ: "hi_key (JStr ''pw'') [] (Num 1) \<noteq> hi_key (JStr ''pw'') [] (Num 201)"
    by (simp add: hi_key_exact)
  show ?thesis
    using HI_memoized_and_bounded
      [where g = ?g and data = "JStr ''pw''" and salt = "[]" and it = "Num 1"
         and v = "replicate 20 3" and p = test_platform and m = Sha1 and cs = "test_calls 200"
         and ndata = "JStr ''pw''" and nsalt = "[]" and nit = "Num 201"
         and nv = "replicate 20 3"]
      count hit miss run differ
    by simp
qed


subsection \<open>The first round and the iteration count\<close>

lemma executeScram_first_round:
  assumes "processPassword p m c = Inr pw" and "username c = JStr u"
    and "server connection (saslStart_command m (source c) (first_bare (escape_username u) nonce))
           = (None, RReply d)"
    and "\<not> truthy (r_dollar_err d)" and "\<not> truthy (r_errmsg d)"
    and "r_payload d = Some pl" and "parsePayload pl ''s'' = Some salt"
  shows "executeScram p m server connection c nonce g =
           on_saslStart p m server connection (source c) pw (first_bare (escape_username u) nonce)
             [saslStart_command m (source c) (first_bare (escape_username u) nonce)] g
             (None, RReply d)"
  using assms by (simp add: executeScram_def clean_username_def Let_def)

lemma on_saslContinue_sent:
  "on_saslContinue server connection db sent reply = (c, sent') \<Longrightarrow> length sent \<le> length sent'"
  by (cases reply; cases "snd reply")
    (auto simp add: on_saslContinue_def Let_def case_prod_beta split: if_splits)

lemma on_saslStart_globals:
  assumes "\<not> truthy (r_dollar_err d)" and "\<not> truthy (r_errmsg d)"
    and "r_payload d = Some pl" and "parsePayload pl ''s'' = Some salt"
  shows "snd (snd (on_saslStart p m server connection db pw firstBare sent g (None, RReply d)))
     = snd (HI p g pw (base64_decode p salt) (parseInt10 (parsePayload pl ''i'')) m)"
  using assms
  by (simp add: on_saslStart_def getError_def Let_def invalid_iteration_count_def
      split: prod.splits sum.splits)

lemma on_saslStart_low:
  assumes "\<not> truthy (r_dollar_err d)" and "\<not> truthy (r_errmsg d)"
    and "r_payload d = Some pl" and "parsePayload pl ''s'' = Some salt"
    and "parseInt10 (parsePayload pl ''i'') = Num i" and "i \<noteq> 0" and "i < 4096"
    and "fst (HI p g pw (base64_decode p salt) (Num i) m) = Inr sp"
  shows "on_saslStart p m server connection db pw firstBare sent g (None, RReply d)
     = (Callback (Some (MongoError (''Server returned an invalid iteration count ''
                           @ number_toString (Num i)))) RFalse, sent,
        snd (HI p g pw (base64_decode p salt) (Num i) m))"
  using assms
  by (cases "HI p g pw (base64_decode p salt) (Num i) m")
    (simp add: on_saslStart_def getError_def Let_def invalid_iteration_count_def)

lemma on_saslStart_zero:
  assumes "\<not> truthy (r_dollar_err d)" and "\<not> truthy (r_errmsg d)"
    and "r_payload d = Some pl" and "parsePayload pl ''s'' = Some salt"
    and "parseInt10 (parsePayload pl ''i'') = Num 0"
  shows "(\<exists>e. fst (on_saslStart p m server connection db pw firstBare sent g (None, RReply d)) = Threw e)
       \<or> length (fst (snd (on_saslStart p m server connection db pw firstBare sent g (None, RReply d))))
            \<ge> Suc (length sent)"
  using assms
  by (auto simp add: on_saslStart_def getError_def Let_def invalid_iteration_count_def
      split: prod.splits sum.splits dest!: on_saslContinue_sent)

lemma executeScram_zero:
  assumes "processPassword p m c = Inr pw" and "username c = JStr u"
    and "server connection (saslStart_command m (source c) (first_bare (escape_username u) nonce))
           = (None, RReply d)"
    and "\<not> truthy (r_dollar_err d)" and "\<not> truthy (r_errmsg d)"
    and "r_payload d = Some pl" and "parsePayload pl ''s'' = Some salt"
    and "parseInt10 (parsePayload pl ''i'') = Num 0"
  shows "(\<exists>e. fst (executeScram p m server connection c nonce g) = Threw e)
       \<or> length (fst (snd (executeScram p m server connection c nonce g))) \<ge> 2"
proof -
  have first: "executeScram p m server connection c nonce g =
      on_saslStart p m server connection (source c) pw (first_bare (escape_username u) nonce)
        [saslStart_command m (source c) (first_bare (escape_username u) nonce)] g (None, RReply d)"
    by (rule executeScram_first_round) (fact assms)+
  show ?thesis
    using on_saslStart_zero [OF assms(4-8), of p m server connection "source c" pw
      "first_bare (escape_username u) nonce"
      "[saslStart_command m (source c) (first_bare (escape_username u) nonce)]" g]
    by (auto simp add: first)
qed

lemma executeScram_low:
  assumes "processPassword p m c = Inr pw" and "username c = JStr u"
    and "server connection (saslStart_command m (source c) (first_bare (escape_username u) nonce))
           = (None, RReply d)"
    and "\<not> truthy (r_dollar_err d)" and "\<not> truthy (r_errmsg d)"
    and "r_payload d = Some pl" and "parsePayload pl ''s'' = Some salt"
    and "parseInt10 (parsePayload pl ''i'') = Num i" and "i \<noteq> 0" and "i < 4096"
    and "fst (HI p g pw (base64_decode p salt) (Num i) m) = Inr sp"
  shows "executeScram p m server connection c nonce g =
     (Callback (Some (MongoError (''Server returned an invalid iteration count ''
                        @ number_toString (Num i)))) RFalse,
      [saslStart_command m (source c) (first_bare (escape_username u) nonce)],
      snd (HI p g pw (base64_decode p salt) (Num i) m))"
proof -
  have first: "executeScram p m server connection c nonce g =
      on_saslStart p m server connection (source c) pw (first_bare (escape_username u) nonce)
        [saslStart_command m (source c) (first_bare (escape_username u) nonce)] g (None, RReply d)"
    by (rule executeScram_first_round) (fact assms)+
  show ?thesis
    by (simp add: first on_saslStart_low [OF assms(4-11)])
qed

lemma test_processPassword:
  "processPassword test_platform Sha1 test_credentials = Inr (JStr ''d41d8cd98f00b204e9800998ecf8427e'')"
  by (simp add: processPassword_def passwordDigest_def test_platform_def test_credentials_def)

lemma test_username: "username test_credentials = JStr ''user''"
  by (simp add: test_credentials_def)

lemma test_source: "source test_credentials = ''admin''"
  by (simp add: test_credentials_def)

lemma test_reply_ok:
  "\<not> truthy (r_dollar_err (test_reply t))" "\<not> truthy (r_errmsg (test_reply t))"
  by (simp_all add: test_reply_def)

lemma test_reply_payload: "r_payload (test_reply t) = Some t"
  by (simp add: test_reply_def)

lemma test_server_reply: "test_server t k q = (None, RReply (test_reply t))"
  by (simp add: test_server_def)

lemma test_decode: "base64_decode test_platform s = Buffer_from s"
  by (simp add: test_platform_def)

lemma test_payload_100:
  "parsePayload ''r=abc,s=QUJD,i=100'' ''s'' = Some ''QUJD''"
  "parseInt10 (parsePayload ''r=abc,s=QUJD,i=100'' ''i'') = Num 100"
  by (simp_all add: parsePayload_def parsePayload_part_def parseInt10_def is_white_space_def
      is_digit_def digits_value_def)

lemma test_payload_0:
  "parsePayload ''r=abc,s=QUJD,i=0'' ''s'' = Some ''QUJD''"
  "parseInt10 (parsePayload ''r=abc,s=QUJD,i=0'' ''i'') = Num 0"
  by (simp_all add: parsePayload_def parsePayload_part_def parseInt10_def is_white_space_def
      is_digit_def digits_value_def)

lemma test_HI_initial:
  "0 \<le> i \<Longrightarrow> HI test_platform initial_globals pw salt (Num i) Sha1 =
     (Inr (replicate 20 3),
      \<lparr>hiCache = [(hi_key pw salt (Num i), replicate 20 3)], hiCacheCount = 1,
       derivations = [(pw, salt, Num i)]\<rparr>)"
  by (simp add: HI_def initial_globals_def test_platform_def hiLengthMap_def Let_def)

lemma test_HI_cached:
  "HI p \<lparr>hiCache = [(hi_key pw salt it, v)], hiCacheCount = n, derivations = ds\<rparr> pw salt it m
     = (Inr v, \<lparr>hiCache = [(hi_key pw salt it, v)], hiCacheCount = n, derivations = ds\<rparr>)"
  by (simp add: HI_def)

lemma digits_100: "number_toString (Num 100) = ''100''" "nat_toString 100 = ''100''"
  by code_simp+

lemma test_first_bare: "first_bare (escape_username ''user'') nonce = ''n=user,r='' @ nonce"
  by (simp add: first_bare_def escape_username_def)

text \<open>The run on a reply with the iteration count 100, from any module state.\<close>

lemma test_run_low:
  assumes "fst (HI test_platform g (JStr ''d41d8cd98f00b204e9800998ecf8427e'')
             (Buffer_from ''QUJD'') (Num 100) Sha1) = Inr sp"
  shows "executeScram test_platform Sha1 (test_server ''r=abc,s=QUJD,i=100'') () test_credentials
           nonce g
     = (Callback (Some (MongoError ''Server returned an invalid iteration count 100'')) RFalse,
        [saslStart_command Sha1 ''admin'' (''n=user,r='' @ nonce)],
        snd (HI test_platform g (JStr ''d41d8cd98f00b204e9800998ecf8427e'')
               (Buffer_from ''QUJD'') (Num 100) Sha1))"
proof -
  have hi: "fst (HI test_platform g (JStr ''d41d8cd98f00b204e9800998ecf8427e'')
             (base64_decode test_platform ''QUJD'') (Num 100) Sha1) = Inr sp"
    using assms by (simp add: test_decode)
  have "(100::int) \<noteq> 0" "(100::int) < 4096" by simp_all
  note executeScram_low
    [where p = test_platform and m = Sha1 and c = test_credentials
       and pw = "JStr ''d41d8cd98f00b204e9800998ecf8427e''" and u = "''user''"
       and server = "test_server ''r=abc,s=QUJD,i=100''" and connection = "()"
       and nonce = nonce and d = "test_reply ''r=abc,s=QUJD,i=100''"
       and pl = "''r=abc,s=QUJD,i=100''" and salt = "''QUJD''" and i = 100
       and g = g and sp = sp,
     OF test_processPassword test_username test_server_reply test_reply_ok test_reply_payload
       test_payload_100 \<open>(100::int) \<noteq> 0\<close> \<open>(100::int) < 4096\<close> hi]
  then show ?thesis
    by (simp only: test_source test_first_bare test_decode digits_100) simp
qed

lemma test_H: "H test_platform Sha1 b = replicate 20 1"
  by (simp add: H_def test_platform_def hiLengthMap_def)

lemma test_HMAC: "HMAC test_platform Sha1 k t = replicate 20 2"
  by (simp add: HMAC_def test_platform_def hiLengthMap_def)

lemma xor_res_self: "xor_res a a = replicate (length a) 0"
  by (simp add: xor_res_def xor_operand_def map_replicate_trivial del: replicate_eq_replicate)

lemma replicate_20:
  "replicate 20 x = [x, x, x, x, x, x, x, x, x, x, x, x, x, x, x, x, x, x, x, x]"
  by (simp add: numeral_eq_Suc)

lemma toString_base64_zeros:
  "toString_base64 (replicate 20 0) = ''AAAAAAAAAAAAAAAAAAAAAAAAAAA=''"
  unfolding replicate_20 by (simp add: base64_char_def base64_alphabet_def)

lemma test_proof: "xor_js (ABuffer (replicate 20 2)) (ABuffer (replicate 20 2)) = ''AAAAAAAAAAAAAAAAAAAAAAAAAAA=''"
  by (simp only: xor_js_def to_buffer.simps xor_res_self length_replicate toString_base64_zeros)

lemma test_clientFinal:
  "clientFinal_message test_platform Sha1 sp fb pl ''c=biws,r=abc''
     = ''c=biws,r=abc,p=AAAAAAAAAAAAAAAAAAAAAAAAAAA=''"
  by (simp add: clientFinal_message_def test_HMAC test_H test_proof)

lemma on_saslStart_continue:
  assumes "\<not> truthy (r_dollar_err d)" and "\<not> truthy (r_errmsg d)"
    and "r_payload d = Some pl" and "parsePayload pl ''s'' = Some salt"
    and "HI p g pw (base64_decode p salt) (parseInt10 (parsePayload pl ''i'')) m = (Inr sp, g')"
    and "\<not> invalid_iteration_count (parseInt10 (parsePayload pl ''i''))"
  shows "on_saslStart p m server connection db pw firstBare sent g (None, RReply d) =
     (fst (on_saslContinue server connection db
        (sent @ [buildCommand (db @ ''.$cmd'') (SaslContinue (r_conversationId d)
           (clientFinal_message p m sp firstBare pl
              (''c=biws,r='' @ template_value (parsePayload pl ''r''))))])
        (server connection (buildCommand (db @ ''.$cmd'') (SaslContinue (r_conversationId d)
           (clientFinal_message p m sp firstBare pl
              (''c=biws,r='' @ template_value (parsePayload pl ''r''))))))),
      snd (on_saslContinue server connection db
        (sent @ [buildCommand (db @ ''.$cmd'') (SaslContinue (r_conversationId d)
           (clientFinal_message p m sp firstBare pl
              (''c=biws,r='' @ template_value (parsePayload pl ''r''))))])
        (server connection (buildCommand (db @ ''.$cmd'') (SaslContinue (r_conversationId d)
           (clientFinal_message p m sp firstBare pl
              (''c=biws,r='' @ template_value (parsePayload pl ''r''))))))),
      g')"
  using assms by (simp add: on_saslStart_def getError_def Let_def case_prod_beta)

lemma test_on_saslContinue:
  "on_saslContinue (test_server t) k db sent (test_server t k q)
     = (Callback None (RReply (test_reply t)),
        sent @ [buildCommand (db @ ''.$cmd'') (SaslContinue (JNumber (Num 1)) [])])"
  by (simp add: on_saslContinue_def test_server_def test_reply_def Let_def)

lemma test_payload_0_nonce: "parsePayload ''r=abc,s=QUJD,i=0'' ''r'' = Some ''abc''"
  by (simp add: parsePayload_def parsePayload_part_def)

text \<open>The run on a reply with the iteration count 0.\<close>

lemma test_run_zero:
  "executeScram test_platform Sha1 (test_server ''r=abc,s=QUJD,i=0'') () test_credentials
     ''nonce'' initial_globals
   = (Callback None (RReply (test_reply ''r=abc,s=QUJD,i=0'')),
      [saslStart_command Sha1 ''admin'' ''n=user,r=nonce'',
       buildCommand ''admin.$cmd''
         (SaslContinue (JNumber (Num 1))
            (''c=biws,r=abc,p='' @ xor_js (ABuffer (replicate 20 2)) (ABuffer (replicate 20 2)))),
       buildCommand ''admin.$cmd'' (SaslContinue (JNumber (Num 1)) [])],
      \<lparr>hiCache = [(hi_key (JStr ''d41d8cd98f00b204e9800998ecf8427e'') (Buffer_from ''QUJD'')
                      (Num 0), replicate 20 3)],
       hiCacheCount = 1,
       derivations = [(JStr ''d41d8cd98f00b204e9800998ecf8427e'', Buffer_from ''QUJD'', Num 0)]\<rparr>)"
proof -
  note first = executeScram_first_round
    [where p = test_platform and m = Sha1 and c = test_credentials
       and pw = "JStr ''d41d8cd98f00b204e9800998ecf8427e''" and u = "''user''"
       and server = "test_server ''r=abc,s=QUJD,i=0''" and connection = "()"
       and nonce = "''nonce''" and d = "test_reply ''r=abc,s=QUJD,i=0''"
       and pl = "''r=abc,s=QUJD,i=0''" and salt = "''QUJD''" and g = initial_globals,
     OF test_processPassword test_username test_server_reply test_reply_ok test_reply_payload
       test_payload_0(1)]
  have hi: "HI test_platform initial_globals (JStr ''d41d8cd98f00b204e9800998ecf8427e'')
      (base64_decode test_platform ''QUJD'') (parseInt10 (parsePayload ''r=abc,s=QUJD,i=0'' ''i'')) Sha1
    = (Inr (replicate 20 3),
       \<lparr>hiCache = [(hi_key (JStr ''d41d8cd98f00b204e9800998ecf8427e'') (Buffer_from ''QUJD'')
                      (Num 0), replicate 20 3)],
        hiCacheCount = 1,
        derivations = [(JStr ''d41d8cd98f00b204e9800998ecf8427e'', Buffer_from ''QUJD'', Num 0)]\<rparr>)"
    by (simp add: test_payload_0 test_decode test_HI_initial)
  have "\<not> invalid_iteration_count (parseInt10 (parsePayload ''r=abc,s=QUJD,i=0'' ''i''))"
    by (simp add: test_payload_0 invalid_iteration_count_def)
  note second = on_saslStart_continue
    [where p = test_platform and m = Sha1 and server = "test_server ''r=abc,s=QUJD,i=0''"
       and connection = "()" and d = "test_reply ''r=abc,s=QUJD,i=0''"
       and pl = "''r=abc,s=QUJD,i=0''" and salt = "''QUJD''" and g = initial_globals
       and pw = "JStr ''d41d8cd98f00b204e9800998ecf8427e''"
       and db = "source test_credentials"
       and firstBare = "first_bare (escape_username ''user'') ''nonce''"
       and sent = "[saslStart_command Sha1 (source test_credentials)
                      (first_bare (escape_username ''user'') ''nonce'')]",
     OF test_reply_ok test_reply_payload test_payload_0(1) hi this]
  show ?thesis
    unfolding first second
    by (simp add: test_on_saslContinue test_HMAC test_H test_source test_first_bare
        clientFinal_message_def template_value_def test_payload_0_nonce)
      (simp add: test_reply_def)
qed

lemma on_saslStart_throws:
  assumes "\<not> truthy (r_dollar_err d)" and "\<not> truthy (r_errmsg d)"
    and "r_payload d = Some pl" and "parsePayload pl ''s'' = Some salt"
    and "HI p g pw (base64_decode p salt) (parseInt10 (parsePayload pl ''i'')) m = (Inl e, g')"
  shows "on_saslStart p m server connection db pw firstBare sent g (None, RReply d)
     = (Threw e, sent, g')"
  using assms by (simp add: on_saslStart_def getError_def Let_def)

lemma any_processPassword:
  "processPassword p Sha1 test_credentials = Inr (JStr (md5_hex_digest p ''user:mongo:pencil''))"
  by (simp add: processPassword_def passwordDigest_def test_credentials_def)

lemma test_run_zero_any_platform:
  "(\<exists>e. fst (executeScram p Sha1 (test_server ''r=abc,s=QUJD,i=0'') () test_credentials
               ''nonce'' initial_globals) = Threw e
        \<and> fst (snd (executeScram p Sha1 (test_server ''r=abc,s=QUJD,i=0'') () test_credentials
               ''nonce'' initial_globals))
            = [\<lparr>ns = ''admin.$cmd'', cmd = SaslStart ''SCRAM-SHA-1'' ''n,,n=user,r=nonce'',
                numberToSkip = 0, numberToReturn = 1\<rparr>])
   \<or> (fst (executeScram p Sha1 (test_server ''r=abc,s=QUJD,i=0'') () test_credentials
               ''nonce'' initial_globals) = Callback None (RReply (test_reply ''r=abc,s=QUJD,i=0''))
        \<and> length (fst (snd (executeScram p Sha1 (test_server ''r=abc,s=QUJD,i=0'') ()
               test_credentials ''nonce'' initial_globals))) = 3)"
proof -
  let ?pw = "JStr (md5_hex_digest p ''user:mongo:pencil'')"
  note first = executeScram_first_round
    [where p = p and m = Sha1 and c = test_credentials
       and pw = ?pw and u = "''user''"
       and server = "test_server ''r=abc,s=QUJD,i=0''" and connection = "()"
       and nonce = "''nonce''" and d = "test_reply ''r=abc,s=QUJD,i=0''"
       and pl = "''r=abc,s=QUJD,i=0''" and salt = "''QUJD''" and g = initial_globals,
     OF any_processPassword test_username test_server_reply test_reply_ok test_reply_payload
       test_payload_0(1)]
  have ok: "\<not> invalid_iteration_count (parseInt10 (parsePayload ''r=abc,s=QUJD,i=0'' ''i''))"
    by (simp add: test_payload_0 invalid_iteration_count_def)
  obtain r g' where hi: "HI p initial_globals ?pw (base64_decode p ''QUJD'')
      (parseInt10 (parsePayload ''r=abc,s=QUJD,i=0'' ''i'')) Sha1 = (r, g')"
    by (cases "HI p initial_globals ?pw (base64_decode p ''QUJD'')
      (parseInt10 (parsePayload ''r=abc,s=QUJD,i=0'' ''i'')) Sha1")
  show ?thesis
  proof (cases r)
    case (Inl e)
    note second = on_saslStart_throws
      [where p = p and m = Sha1 and server = "test_server ''r=abc,s=QUJD,i=0''"
         and connection = "()" and d = "test_reply ''r=abc,s=QUJD,i=0''"
         and pl = "''r=abc,s=QUJD,i=0''" and salt = "''QUJD''" and g = initial_globals
         and pw = ?pw and db = "source test_credentials"
         and firstBare = "first_bare (escape_username ''user'') ''nonce''"
         and sent = "[saslStart_command Sha1 (source test_credentials)
                        (first_bare (escape_username ''user'') ''nonce'')]",
       OF test_reply_ok test_reply_payload test_payload_0(1) hi [unfolded Inl]]
    show ?thesis
      unfolding first second
      by (simp add: test_source test_first_bare saslStart_command_def buildCommand_def
          mechanism_name_def)
  next
    case (Inr sp)
    note second = on_saslStart_continue
      [where p = p and m = Sha1 and server = "test_server ''r=abc,s=QUJD,i=0''"
         and connection = "()" and d = "test_reply ''r=abc,s=QUJD,i=0''"
         and pl = "''r=abc,s=QUJD,i=0''" and salt = "''QUJD''" and g = initial_globals
         and pw = ?pw and db = "source test_credentials"
         and firstBare = "first_bare (escape_username ''user'') ''nonce''"
         and sent = "[saslStart_command Sha1 (source test_credentials)
                        (first_bare (escape_username ''user'') ''nonce'')]",
       OF test_reply_ok test_reply_payload test_payload_0(1) hi [unfolded Inr] ok]
    show ?thesis
      unfolding first second
      by (simp add: test_on_saslContinue)
  qed
qed

lemma test_strict_HI:
  "HI test_platform_strict initial_globals pw salt (Num 0) Sha1 =
     (Inl (TypeError ''iterations is out of range''),
      \<lparr>hiCache = [], hiCacheCount = 0, derivations = [(pw, salt, Num 0)]\<rparr>)"
  by (simp add: HI_def initial_globals_def test_platform_strict_def test_platform_def
      hiLengthMap_def Let_def)

lemma test_run_zero_strict:
  "executeScram test_platform_strict Sha1 (test_server ''r=abc,s=QUJD,i=0'') () test_credentials
     ''nonce'' initial_globals
   = (Threw (TypeError ''iterations is out of range''),
      [\<lparr>ns = ''admin.$cmd'', cmd = SaslStart ''SCRAM-SHA-1'' ''n,,n=user,r=nonce'',
        numberToSkip = 0, numberToReturn = 1\<rparr>],
      \<lparr>hiCache = [], hiCacheCount = 0,
       derivations = [(JStr ''d41d8cd98f00b204e9800998ecf8427e'', Buffer_from ''QUJD'', Num 0)]\<rparr>)"
proof -
  let ?pw = "JStr (md5_hex_digest test_platform_strict ''user:mongo:pencil'')"
  note first = executeScram_first_round
    [where p = test_platform_strict and m = Sha1 and c = test_credentials
       and pw = ?pw and u = "''user''"
       and server = "test_server ''r=abc,s=QUJD,i=0''" and connection = "()"
       and nonce = "''nonce''" and d = "test_reply ''r=abc,s=QUJD,i=0''"
       and pl = "''r=abc,s=QUJD,i=0''" and salt = "''QUJD''" and g = initial_globals,
     OF any_processPassword test_username test_server_reply test_reply_ok test_reply_payload
       test_payload_0(1)]
  have hi: "HI test_platform_strict initial_globals ?pw (base64_decode test_platform_strict ''QUJD'')
      (parseInt10 (parsePayload ''r=abc,s=QUJD,i=0'' ''i'')) Sha1
    = (Inl (TypeError ''iterations is out of range''),
       \<lparr>hiCache = [], hiCacheCount = 0,
        derivations = [(?pw, base64_decode test_platform_strict ''QUJD'', Num 0)]\<rparr>)"
    by (simp add: test_payload_0 test_strict_HI)
  note second = on_saslStart_throws
      [where p = test_platform_strict and m = Sha1 and server = "test_server ''r=abc,s=QUJD,i=0''"
         and connection = "()" and d = "test_reply ''r=abc,s=QUJD,i=0''"
         and pl = "''r=abc,s=QUJD,i=0''" and salt = "''QUJD''" and g = initial_globals
         and pw = ?pw and db = "source test_credentials"
         and firstBare = "first_bare (escape_username ''user'') ''nonce''"
         and sent = "[saslStart_command Sha1 (source test_credentials)
                        (first_bare (escape_username ''user'') ''nonce'')]",
       OF test_reply_ok test_reply_payload test_payload_0(1) hi]
  show ?thesis
    unfolding first second
    by (simp add: test_source test_first_bare saslStart_command_def buildCommand_def
          mechanism_name_def test_platform_strict_def test_platform_def)
qed

lemma test_run_zero_commands:
  "fst (snd (executeScram test_platform Sha1 (test_server ''r=abc,s=QUJD,i=0'') () test_credentials
     ''nonce'' initial_globals))
   = [\<lparr>ns = ''admin.$cmd'', cmd = SaslStart ''SCRAM-SHA-1'' ''n,,n=user,r=nonce'',
        numberToSkip = 0, numberToReturn = 1\<rparr>,
      \<lparr>ns = ''admin.$cmd'',
        cmd = SaslContinue (JNumber (Num 1)) ''c=biws,r=abc,p=AAAAAAAAAAAAAAAAAAAAAAAAAAA='',
        numberToSkip = 0, numberToReturn = 1\<rparr>,
      \<lparr>ns = ''admin.$cmd'', cmd = SaslContinue (JNumber (Num 1)) [],
        numberToSkip = 0, numberToReturn = 1\<rparr>]"
  by (simp only: test_run_zero fst_conv snd_conv test_proof)
     (simp add: saslStart_command_def buildCommand_def mechanism_name_def)

text \<open>
  C5. The specification has every iteration count below 4096 rejected with the
  invalid-iteration-count error, nothing being written after \<^verbatim>\<open>saslStart\<close>. The check
  is \<^verbatim>\<open>iterations && iterations < 4096\<close>, and 0 is falsy: on the first reply
  \<^verbatim>\<open>r=abc,s=QUJD,i=0\<close> the parsed count is 0 and the attempt never ends with that
  error. On every platform either \<^verbatim>\<open>pbkdf2Sync\<close> throws, or the attempt goes on, writes
  three commands and ends with the server's last reply. Where \<^verbatim>\<open>pbkdf2Sync\<close> accepts
  the count 0 the \<^verbatim>\<open>saslContinue\<close> command with the client proof and the empty
  \<^verbatim>\<open>saslContinue\<close> are written; where it rejects 0 its exception is thrown out of the
  callback of \<^verbatim>\<open>saslStart\<close>, and the callback of the attempt is never called.
\<close>

theorem zero_iteration_count_not_rejected:
  "parseInt10 (parsePayload ''r=abc,s=QUJD,i=0'' ''i'') = Num 0
   \<and> (\<forall>p. (\<exists>e. fst (executeScram p Sha1 (test_server ''r=abc,s=QUJD,i=0'') () test_credentials
                       ''nonce'' initial_globals) = Threw e)
          \<or> (fst (executeScram p Sha1 (test_server ''r=abc,s=QUJD,i=0'') () test_credentials
                     ''nonce'' initial_globals)
                = Callback None (RReply (test_reply ''r=abc,s=QUJD,i=0''))
              \<and> length (fst (snd (executeScram p Sha1 (test_server ''r=abc,s=QUJD,i=0'') ()
                                     test_credentials ''nonce'' initial_globals))) = 3))
   \<and> fst (executeScram test_platform Sha1 (test_server ''r=abc,s=QUJD,i=0'') () test_credentials
            ''nonce'' initial_globals)
       = Callback None (RReply (test_reply ''r=abc,s=QUJD,i=0''))
   \<and> fst (snd (executeScram test_platform Sha1 (test_server ''r=abc,s=QUJD,i=0'') ()
                 test_credentials ''nonce'' initial_globals))
       = [\<lparr>ns = ''admin.$cmd'', cmd = SaslStart ''SCRAM-SHA-1'' ''n,,n=user,r=nonce'',
            numberToSkip = 0, numberToReturn = 1\<rparr>,
          \<lparr>ns = ''admin.$cmd'',
            cmd = SaslContinue (JNumber (Num 1)) ''c=biws,r=abc,p=AAAAAAAAAAAAAAAAAAAAAAAAAAA='',
            numberToSkip = 0, numberToReturn = 1\<rparr>,
          \<lparr>ns = ''admin.$cmd'', cmd = SaslContinue (JNumber (Num 1)) [],
            numberToSkip = 0, numberToReturn = 1\<rparr>]
   \<and> fst (executeScram test_platform_strict Sha1 (test_server ''r=abc,s=QUJD,i=0'') ()
            test_credentials ''nonce'' initial_globals)
       = Threw (TypeError ''iterations is out of range'')
   \<and> fst (snd (executeScram test_platform_strict Sha1 (test_server ''r=abc,s=QUJD,i=0'') ()
                 test_credentials ''nonce'' initial_globals))
       = [\<lparr>ns = ''admin.$cmd'', cmd = SaslStart ''SCRAM-SHA-1'' ''n,,n=user,r=nonce'',
            numberToSkip = 0, numberToReturn = 1\<rparr>]"
proof -
  have any: "\<forall>p. (\<exists>e. fst (executeScram p Sha1 (test_server ''r=abc,s=QUJD,i=0'') () test_credentials
                       ''nonce'' initial_globals) = Threw e)
          \<or> (fst (executeScram p Sha1 (test_server ''r=abc,s=QUJD,i=0'') () test_credentials
                     ''nonce'' initial_globals)
                = Callback None (RReply (test_reply ''r=abc,s=QUJD,i=0''))
              \<and> length (fst (snd (executeScram p Sha1 (test_server ''r=abc,s=QUJD,i=0'') ()
                                     test_credentials ''nonce'' initial_globals))) = 3)"
    using test_run_zero_any_platform by blast
  show ?thesis
    by (intro conjI any test_payload_0(2) test_run_zero_commands)
      (simp_all only: test_run_zero test_run_zero_strict fst_conv snd_conv)
qed

text \<open>
  C10, amended: for every first reply that is not an error and carries a payload with a
  salt, \<^verbatim>\<open>HI\<close> is called before the iteration count is checked, so the module state
  after the attempt is the state after that call, however the attempt ends. When the
  key is not yet cached and \<^verbatim>\<open>pbkdf2Sync\<close> returns, the derivation has run with the
  count of the reply and its result is in the cache under that key; if that count is a
  non-zero number below 4096, the attempt still ends with the invalid-iteration-count
  error.
\<close>

theorem derivation_precedes_iteration_check:
  assumes "processPassword p m c = Inr pw" and "username c = JStr u"
    and "server connection (saslStart_command m (source c) (first_bare (escape_username u) nonce))
           = (None, RReply d)"
    and "\<not> truthy (r_dollar_err d)" and "\<not> truthy (r_errmsg d)"
    and "r_payload d = Some pl" and "parsePayload pl ''s'' = Some salt"
  shows "snd (snd (executeScram p m server connection c nonce g))
           = snd (HI p g pw (base64_decode p salt) (parseInt10 (parsePayload pl ''i'')) m)
       \<and> (map_of (hiCache g)
             (hi_key pw (base64_decode p salt) (parseInt10 (parsePayload pl ''i''))) = None
          \<and> pbkdf2Sync p pw (base64_decode p salt) (parseInt10 (parsePayload pl ''i''))
               (hiLengthMap m) m = Inr v
          \<longrightarrow>
            derivations (snd (snd (executeScram p m server connection c nonce g)))
              = derivations g @ [(pw, base64_decode p salt, parseInt10 (parsePayload pl ''i''))]
          \<and> map_of (hiCache (snd (snd (executeScram p m server connection c nonce g))))
                (hi_key pw (base64_decode p salt) (parseInt10 (parsePayload pl ''i''))) = Some v
          \<and> (\<forall>i. parseInt10 (parsePayload pl ''i'') = Num i \<and> i \<noteq> 0 \<and> i < 4096 \<longrightarrow>
                fst (executeScram p m server connection c nonce g)
                  = Callback (Some (MongoError (''Server returned an invalid iteration count ''
                                       @ number_toString (Num i)))) RFalse))"
proof -
  let ?it = "parseInt10 (parsePayload pl ''i'')"
  let ?salt = "base64_decode p salt"
  have first: "executeScram p m server connection c nonce g =
      on_saslStart p m server connection (source c) pw (first_bare (escape_username u) nonce)
        [saslStart_command m (source c) (first_bare (escape_username u) nonce)] g (None, RReply d)"
    by (rule executeScram_first_round) (fact assms)+
  have globals: "snd (snd (executeScram p m server connection c nonce g)) = snd (HI p g pw ?salt ?it m)"
    by (simp add: first on_saslStart_globals [OF assms(4-7)])
  have inserted: "derivations (snd (HI p g pw ?salt ?it m)) = derivations g @ [(pw, ?salt, ?it)]
      \<and> map_of (hiCache (snd (HI p g pw ?salt ?it m))) (hi_key pw ?salt ?it) = Some v
      \<and> fst (HI p g pw ?salt ?it m) = Inr v"
    if miss: "map_of (hiCache g) (hi_key pw ?salt ?it) = None"
      and run: "pbkdf2Sync p pw ?salt ?it (hiLengthMap m) m = Inr v"
    using HI_result_cached [of p g pw ?salt ?it m v]
    by (simp add: HI_miss_insert [OF miss run])
  have low: "fst (executeScram p m server connection c nonce g)
        = Callback (Some (MongoError (''Server returned an invalid iteration count ''
                             @ number_toString (Num i)))) RFalse"
    if "fst (HI p g pw ?salt ?it m) = Inr v" "?it = Num i" "i \<noteq> 0" "i < 4096" for i
  proof -
    from that have "fst (HI p g pw ?salt (Num i) m) = Inr v" by simp
    then have "executeScram p m server connection c nonce g =
       (Callback (Some (MongoError (''Server returned an invalid iteration count ''
                        @ number_toString (Num i)))) RFalse,
        [saslStart_command m (source c) (first_bare (escape_username u) nonce)],
        snd (HI p g pw (base64_decode p salt) (Num i) m))"
      using assms that(2-4) by (intro executeScram_low)
    then show ?thesis by simp
  qed
  show ?thesis
    using globals inserted low by auto
qed

theorem derivation_precedes_iteration_check_witness:
  "snd (snd (executeScram test_platform Sha1 (test_server ''r=abc,s=QUJD,i=100'') ()
               test_credentials ''nonce'' initial_globals))
     = snd (HI test_platform initial_globals (JStr ''d41d8cd98f00b204e9800998ecf8427e'')
              (Buffer_from ''QUJD'') (Num 100) Sha1)
   \<and> derivations (snd (snd (executeScram test_platform Sha1 (test_server ''r=abc,s=QUJD,i=100'') ()
               test_credentials ''nonce'' initial_globals)))
     = [(JStr ''d41d8cd98f00b204e9800998ecf8427e'', Buffer_from ''QUJD'', Num 100)]
   \<and> map_of (hiCache (snd (snd (executeScram test_platform Sha1
               (test_server ''r=abc,s=QUJD,i=100'') () test_credentials ''nonce'' initial_globals))))
        (hi_key (JStr ''d41d8cd98f00b204e9800998ecf8427e'') (Buffer_from ''QUJD'') (Num 100))
     = Some (replicate 20 3)
   \<and> fst (executeScram test_platform Sha1 (test_server ''r=abc,s=QUJD,i=100'') ()
               test_credentials ''nonce'' initial_globals)
     = Callback (Some (MongoError ''Server returned an invalid iteration count 100'')) RFalse"
proof -
  have run: "pbkdf2Sync test_platform (JStr ''d41d8cd98f00b204e9800998ecf8427e'')
      (Buffer_from ''QUJD'') (Num 100) (hiLengthMap Sha1) Sha1 = Inr (replicate 20 3)"
    by (simp add: test_platform_def hiLengthMap_def)
  have miss: "map_of (hiCache initial_globals) k = None" for k
    by (simp add: initial_globals_def)
  have empty: "derivations initial_globals = []"
    by (simp add: initial_globals_def)
  note derivation_precedes_iteration_check
    [where p = test_platform and m = Sha1 and c = test_credentials
       and pw = "JStr ''d41d8cd98f00b204e9800998ecf8427e''" and u = "''user''"
       and server = "test_server ''r=abc,s=QUJD,i=100''" and connection = "()"
       and nonce = "''nonce''" and d = "test_reply ''r=abc,s=QUJD,i=100''"
       and pl = "''r=abc,s=QUJD,i=100''" and salt = "''QUJD''"
       and g = initial_globals and v = "replicate 20 3",
     OF test_processPassword test_username test_server_reply test_reply_ok test_reply_payload
       test_payload_100(1)]
  then show ?thesis
    using run miss empty
    by (simp add: test_payload_100 test_decode digits_100 test_HI_initial)
qed

text \<open>
  C10, as stated, fails on a reply whose key is already cached: a second attempt with
  the same credentials, salt and iteration count 100 runs no derivation and leaves no
  new entry (the module state is unchanged: one derivation, one entry), and still ends
  with the invalid-iteration-count error. It also fails for the iteration count 0: the
  derivation runs, and the attempt does not end with that error.
\<close>

theorem cached_key_skips_derivation:
  "executeScram test_platform Sha1 (test_server ''r=abc,s=QUJD,i=100'') () test_credentials ''nonce2''
      (snd (snd (executeScram test_platform Sha1 (test_server ''r=abc,s=QUJD,i=100'') ()
                   test_credentials ''nonce'' initial_globals)))
   = (Callback (Some (MongoError ''Server returned an invalid iteration count 100'')) RFalse,
      [saslStart_command Sha1 ''admin'' ''n=user,r=nonce2''],
      snd (snd (executeScram test_platform Sha1 (test_server ''r=abc,s=QUJD,i=100'') ()
                   test_credentials ''nonce'' initial_globals)))
   \<and> length (derivations (snd (snd (executeScram test_platform Sha1
        (test_server ''r=abc,s=QUJD,i=100'') () test_credentials ''nonce'' initial_globals)))) = 1
   \<and> length (hiCache (snd (snd (executeScram test_platform Sha1
        (test_server ''r=abc,s=QUJD,i=100'') () test_credentials ''nonce'' initial_globals)))) = 1
   \<and> fst (executeScram test_platform Sha1 (test_server ''r=abc,s=QUJD,i=0'') () test_credentials
            ''nonce'' initial_globals)
       = Callback None (RReply (test_reply ''r=abc,s=QUJD,i=0''))
   \<and> length (derivations (snd (snd (executeScram test_platform Sha1
        (test_server ''r=abc,s=QUJD,i=0'') () test_credentials ''nonce'' initial_globals)))) = 1"
proof -
  let ?pw = "JStr ''d41d8cd98f00b204e9800998ecf8427e''"
  let ?g1 = "\<lparr>hiCache = [(hi_key ?pw (Buffer_from ''QUJD'') (Num 100), replicate 20 3)],
             hiCacheCount = 1, derivations = [(?pw, Buffer_from ''QUJD'', Num 100)]\<rparr>"
  have hi0: "fst (HI test_platform initial_globals ?pw (Buffer_from ''QUJD'') (Num 100) Sha1)
      = Inr (replicate 20 3)"
    by (simp add: test_HI_initial)
  have first: "snd (snd (executeScram test_platform Sha1 (test_server ''r=abc,s=QUJD,i=100'') ()
                   test_credentials ''nonce'' initial_globals)) = ?g1"
    by (simp add: test_run_low [OF hi0] test_HI_initial)
  have hi1: "fst (HI test_platform ?g1 ?pw (Buffer_from ''QUJD'') (Num 100) Sha1)
      = Inr (replicate 20 3)"
    by (simp add: test_HI_cached)
  have second: "executeScram test_platform Sha1 (test_server ''r=abc,s=QUJD,i=100'') ()
        test_credentials ''nonce2'' ?g1
      = (Callback (Some (MongoError ''Server returned an invalid iteration count 100'')) RFalse,
         [saslStart_command Sha1 ''admin'' ''n=user,r=nonce2''], ?g1)"
    by (simp only: test_run_low [OF hi1] test_HI_cached snd_conv) simp
  show ?thesis
    unfolding first second by (simp add: test_run_zero)
qed

subsection \<open>The extra continuation round\<close>

lemma test_payload_4096:
  "parsePayload ''r=abc,s=QUJD,i=4096'' ''s'' = Some ''QUJD''"
  "parsePayload ''r=abc,s=QUJD,i=4096'' ''r'' = Some ''abc''"
  "parseInt10 (parsePayload ''r=abc,s=QUJD,i=4096'' ''i'') = Num 4096"
  by (simp_all add: parsePayload_def parsePayload_part_def parseInt10_def is_white_space_def
      is_digit_def digits_value_def)

lemma test_server_other_id_start:
  "test_server_other_id t k (saslStart_command m db fb) = (None, RReply (test_reply t))"
  by (simp add: test_server_other_id_def saslStart_command_def buildCommand_def)

lemma test_server_other_id_continue:
  "test_server_other_id t k (buildCommand n (SaslContinue cid pl))
     = (None, RReply ((test_reply t)\<lparr>r_conversationId := JNumber (Num 2)\<rparr>))"
  by (simp add: test_server_other_id_def buildCommand_def)

lemma test_run_other_id:
  "executeScram test_platform Sha1 (test_server_other_id ''r=abc,s=QUJD,i=4096'') ()
     test_credentials ''nonce'' initial_globals
   = (Callback None
        (RReply ((test_reply ''r=abc,s=QUJD,i=4096'')\<lparr>r_conversationId := JNumber (Num 2)\<rparr>)),
      [\<lparr>ns = ''admin.$cmd'', cmd = SaslStart ''SCRAM-SHA-1'' ''n,,n=user,r=nonce'',
         numberToSkip = 0, numberToReturn = 1\<rparr>,
       \<lparr>ns = ''admin.$cmd'',
         cmd = SaslContinue (JNumber (Num 1)) ''c=biws,r=abc,p=AAAAAAAAAAAAAAAAAAAAAAAAAAA='',
         numberToSkip = 0, numberToReturn = 1\<rparr>,
       \<lparr>ns = ''admin.$cmd'', cmd = SaslContinue (JNumber (Num 2)) [],
         numberToSkip = 0, numberToReturn = 1\<rparr>],
      \<lparr>hiCache = [(hi_key (JStr ''d41d8cd98f00b204e9800998ecf8427e'') (Buffer_from ''QUJD'')
                      (Num 4096), replicate 20 3)],
       hiCacheCount = 1,
       derivations = [(JStr ''d41d8cd98f00b204e9800998ecf8427e'', Buffer_from ''QUJD'', Num 4096)]\<rparr>)"
proof -
  let ?g' = "\<lparr>hiCache = [(hi_key (JStr ''d41d8cd98f00b204e9800998ecf8427e'') (Buffer_from ''QUJD'')
                      (Num 4096), replicate 20 3)],
       hiCacheCount = 1,
       derivations = [(JStr ''d41d8cd98f00b204e9800998ecf8427e'', Buffer_from ''QUJD'', Num 4096)]\<rparr>"
  note first = executeScram_first_round
    [where p = test_platform and m = Sha1 and c = test_credentials
       and pw = "JStr ''d41d8cd98f00b204e9800998ecf8427e''" and u = "''user''"
       and server = "test_server_other_id ''r=abc,s=QUJD,i=4096''" and connection = "()"
       and nonce = "''nonce''" and d = "test_reply ''r=abc,s=QUJD,i=4096''"
       and pl = "''r=abc,s=QUJD,i=4096''" and salt = "''QUJD''" and g = initial_globals,
     OF test_processPassword test_username test_server_other_id_start test_reply_ok
       test_reply_payload test_payload_4096(1)]
  have hi: "HI test_platform initial_globals (JStr ''d41d8cd98f00b204e9800998ecf8427e'')
      (base64_decode test_platform ''QUJD'')
      (parseInt10 (parsePayload ''r=abc,s=QUJD,i=4096'' ''i'')) Sha1
    = (Inr (replicate 20 3), ?g')"
    by (simp add: test_payload_4096 test_decode test_HI_initial)
  have ok: "\<not> invalid_iteration_count (parseInt10 (parsePayload ''r=abc,s=QUJD,i=4096'' ''i''))"
    by (simp add: test_payload_4096 invalid_iteration_count_def)
  note second = on_saslStart_continue
    [where p = test_platform and m = Sha1 and server = "test_server_other_id ''r=abc,s=QUJD,i=4096''"
       and connection = "()" and d = "test_reply ''r=abc,s=QUJD,i=4096''"
       and pl = "''r=abc,s=QUJD,i=4096''" and salt = "''QUJD''" and g = initial_globals
       and pw = "JStr ''d41d8cd98f00b204e9800998ecf8427e''"
       and db = "source test_credentials"
       and firstBare = "first_bare (escape_username ''user'') ''nonce''"
       and sent = "[saslStart_command Sha1 (source test_credentials)
                      (first_bare (escape_username ''user'') ''nonce'')]",
     OF test_reply_ok test_reply_payload test_payload_4096(1) hi ok]
  show ?thesis
    unfolding first second test_server_other_id_continue on_saslContinue_cases
    by (simp add: test_server_other_id_continue test_source test_first_bare test_payload_4096
        template_value_def test_clientFinal)
      (simp add: test_reply_def saslStart_command_def buildCommand_def mechanism_name_def)
qed

lemma test_escape_user: "escape_username ''user'' = ''user''"
  by (simp add: escape_username_def)

text \<open>
  C7, amended. In an attempt that reaches the \<^verbatim>\<open>saslContinue\<close> round (the first reply is
  not an error, its iteration count is not rejected and the key derivation returned), let
  \<^verbatim>\<open>(err, r)\<close> be what the callback of the \<^verbatim>\<open>saslContinue\<close> command receives. One more
  \<^verbatim>\<open>saslContinue\<close> is written exactly when \<^verbatim>\<open>r\<close> is present and its \<^verbatim>\<open>done\<close> is
  \<^verbatim>\<open>false\<close>; it goes to the namespace \<^verbatim>\<open><db>.$cmd\<close> and carries an empty payload and the
  conversation identifier of \<^verbatim>\<open>r\<close>, and what the callback of that command receives ends
  the attempt. In every other case \<^verbatim>\<open>(err, r)\<close> ends the attempt and no third command is
  written. When \<^verbatim>\<open>r\<close> carries the identifier of the first reply, the two
  \<^verbatim>\<open>saslContinue\<close> commands carry the same identifier.
\<close>

theorem extra_saslContinue_iff_done_false:
  assumes "processPassword p m c = Inr pw" and "username c = JStr u"
    and "startCmd = \<lparr>ns = source c @ ''.$cmd'',
                     cmd = SaslStart (mechanism_name m)
                             (''n,,'' @ ''n='' @ escape_username u @ '',r='' @ nonce),
                     numberToSkip = 0, numberToReturn = 1\<rparr>"
    and "server connection startCmd = (None, RReply d)"
    and "\<not> truthy (r_dollar_err d)" and "\<not> truthy (r_errmsg d)"
    and "r_payload d = Some pl" and "parsePayload pl ''s'' = Some salt"
    and "HI p g pw (base64_decode p salt) (parseInt10 (parsePayload pl ''i'')) m = (Inr sp, g')"
    and "\<not> invalid_iteration_count (parseInt10 (parsePayload pl ''i''))"
    and "continueCmd =
           \<lparr>ns = source c @ ''.$cmd'',
            cmd = SaslContinue (r_conversationId d)
                    (clientFinal_message p m sp (''n='' @ escape_username u @ '',r='' @ nonce) pl
                       (''c=biws,r='' @ template_value (parsePayload pl ''r''))),
            numberToSkip = 0, numberToReturn = 1\<rparr>"
    and "server connection continueCmd = (cerr, creply)"
  shows "executeScram p m server connection c nonce g =
     (case creply of
        RReply d2 \<Rightarrow>
          if r_done d2 = JBool False
          then (Callback
                  (fst (server connection
                          \<lparr>ns = source c @ ''.$cmd'',
                           cmd = SaslContinue (r_conversationId d2) [],
                           numberToSkip = 0, numberToReturn = 1\<rparr>))
                  (snd (server connection
                          \<lparr>ns = source c @ ''.$cmd'',
                           cmd = SaslContinue (r_conversationId d2) [],
                           numberToSkip = 0, numberToReturn = 1\<rparr>)),
                [startCmd, continueCmd,
                 \<lparr>ns = source c @ ''.$cmd'', cmd = SaslContinue (r_conversationId d2) [],
                  numberToSkip = 0, numberToReturn = 1\<rparr>],
                g')
          else (Callback cerr creply, [startCmd, continueCmd], g')
      | _ \<Rightarrow> (Callback cerr creply, [startCmd, continueCmd], g'))
   \<and> (\<forall>d2. creply = RReply d2 \<and> r_done d2 = JBool False
             \<and> r_conversationId d2 = r_conversationId d \<longrightarrow>
           map cmd (fst (snd (executeScram p m server connection c nonce g)))
             = [SaslStart (mechanism_name m)
                  (''n,,'' @ ''n='' @ escape_username u @ '',r='' @ nonce),
                SaslContinue (r_conversationId d)
                  (clientFinal_message p m sp (''n='' @ escape_username u @ '',r='' @ nonce) pl
                     (''c=biws,r='' @ template_value (parsePayload pl ''r''))),
                SaslContinue (r_conversationId d) []])"
proof -
  have start: "startCmd = saslStart_command m (source c) (first_bare (escape_username u) nonce)"
    by (simp add: assms(3) saslStart_command_def buildCommand_def first_bare_def)
  have continue: "continueCmd =
           buildCommand (source c @ ''.$cmd'')
             (SaslContinue (r_conversationId d)
                (clientFinal_message p m sp (first_bare (escape_username u) nonce) pl
                   (''c=biws,r='' @ template_value (parsePayload pl ''r''))))"
    by (simp add: assms(11) buildCommand_def first_bare_def)
  have reply: "server connection (saslStart_command m (source c)
      (first_bare (escape_username u) nonce)) = (None, RReply d)"
    using assms(4) by (simp only: start)
  have first: "executeScram p m server connection c nonce g =
      on_saslStart p m server connection (source c) pw (first_bare (escape_username u) nonce)
        [saslStart_command m (source c) (first_bare (escape_username u) nonce)] g (None, RReply d)"
    by (rule executeScram_first_round) (fact assms(1,2,5-8) reply)+
  note second = on_saslStart_continue [OF assms(5-10), of server connection "source c"
      "first_bare (escape_username u) nonce"
      "[saslStart_command m (source c) (first_bare (escape_username u) nonce)]"]
  have retry: "buildCommand (source c @ ''.$cmd'') (SaslContinue i []) =
      \<lparr>ns = source c @ ''.$cmd'', cmd = SaslContinue i [], numberToSkip = 0, numberToReturn = 1\<rparr>"
    for i by (simp add: buildCommand_def)
  have main: "executeScram p m server connection c nonce g =
     (case creply of
        RReply d2 \<Rightarrow>
          if r_done d2 = JBool False
          then (Callback
                  (fst (server connection
                          \<lparr>ns = source c @ ''.$cmd'',
                           cmd = SaslContinue (r_conversationId d2) [],
                           numberToSkip = 0, numberToReturn = 1\<rparr>))
                  (snd (server connection
                          \<lparr>ns = source c @ ''.$cmd'',
                           cmd = SaslContinue (r_conversationId d2) [],
                           numberToSkip = 0, numberToReturn = 1\<rparr>)),
                [startCmd, continueCmd,
                 \<lparr>ns = source c @ ''.$cmd'', cmd = SaslContinue (r_conversationId d2) [],
                  numberToSkip = 0, numberToReturn = 1\<rparr>],
                g')
          else (Callback cerr creply, [startCmd, continueCmd], g')
      | _ \<Rightarrow> (Callback cerr creply, [startCmd, continueCmd], g'))"
    unfolding first second
    unfolding continue [symmetric] start [symmetric]
    unfolding assms(12) on_saslContinue_cases retry
    by (simp split: jsreply.splits)
  have echo: "\<forall>d2. creply = RReply d2 \<and> r_done d2 = JBool False
             \<and> r_conversationId d2 = r_conversationId d \<longrightarrow>
           map cmd (fst (snd (executeScram p m server connection c nonce g)))
             = [SaslStart (mechanism_name m)
                  (''n,,'' @ ''n='' @ escape_username u @ '',r='' @ nonce),
                SaslContinue (r_conversationId d)
                  (clientFinal_message p m sp (''n='' @ escape_username u @ '',r='' @ nonce) pl
                     (''c=biws,r='' @ template_value (parsePayload pl ''r''))),
                SaslContinue (r_conversationId d) []]"
    unfolding main by (simp add: assms(3) assms(11))
  show ?thesis
    by (rule conjI [OF main echo])
qed

theorem extra_saslContinue_iff_done_false_witness:
  "executeScram test_platform Sha1 (test_server ''r=abc,s=QUJD,i=4096'') () test_credentials
     ''nonce'' initial_globals
   = (Callback None (RReply (test_reply ''r=abc,s=QUJD,i=4096'')),
      [\<lparr>ns = ''admin.$cmd'', cmd = SaslStart ''SCRAM-SHA-1'' ''n,,n=user,r=nonce'',
         numberToSkip = 0, numberToReturn = 1\<rparr>,
       \<lparr>ns = ''admin.$cmd'',
         cmd = SaslContinue (JNumber (Num 1)) ''c=biws,r=abc,p=AAAAAAAAAAAAAAAAAAAAAAAAAAA='',
         numberToSkip = 0, numberToReturn = 1\<rparr>,
       \<lparr>ns = ''admin.$cmd'', cmd = SaslContinue (JNumber (Num 1)) [],
         numberToSkip = 0, numberToReturn = 1\<rparr>],
      \<lparr>hiCache = [(hi_key (JStr ''d41d8cd98f00b204e9800998ecf8427e'') (Buffer_from ''QUJD'')
                      (Num 4096), replicate 20 3)],
       hiCacheCount = 1,
       derivations = [(JStr ''d41d8cd98f00b204e9800998ecf8427e'', Buffer_from ''QUJD'', Num 4096)]\<rparr>)
   \<and> map cmd (fst (snd (executeScram test_platform Sha1 (test_server ''r=abc,s=QUJD,i=4096'') ()
                           test_credentials ''nonce'' initial_globals)))
       = [SaslStart ''SCRAM-SHA-1'' ''n,,n=user,r=nonce'',
          SaslContinue (JNumber (Num 1)) ''c=biws,r=abc,p=AAAAAAAAAAAAAAAAAAAAAAAAAAA='',
          SaslContinue (JNumber (Num 1)) []]"
proof -
  let ?g' = "\<lparr>hiCache = [(hi_key (JStr ''d41d8cd98f00b204e9800998ecf8427e'') (Buffer_from ''QUJD'')
                      (Num 4096), replicate 20 3)],
       hiCacheCount = 1,
       derivations = [(JStr ''d41d8cd98f00b204e9800998ecf8427e'', Buffer_from ''QUJD'', Num 4096)]\<rparr>"
  have hi: "HI test_platform initial_globals (JStr ''d41d8cd98f00b204e9800998ecf8427e'')
      (base64_decode test_platform ''QUJD'')
      (parseInt10 (parsePayload ''r=abc,s=QUJD,i=4096'' ''i'')) Sha1
    = (Inr (replicate 20 3), ?g')"
    by (simp add: test_payload_4096 test_decode test_HI_initial)
  have ok: "\<not> invalid_iteration_count (parseInt10 (parsePayload ''r=abc,s=QUJD,i=4096'' ''i''))"
    by (simp add: test_payload_4096 invalid_iteration_count_def)
  have echoed: "r_done (test_reply ''r=abc,s=QUJD,i=4096'') = JBool False"
    "r_conversationId (test_reply ''r=abc,s=QUJD,i=4096'') = JNumber (Num 1)"
    by (simp_all add: test_reply_def)
  note extra_saslContinue_iff_done_false
    [where p = test_platform and m = Sha1 and c = test_credentials
       and pw = "JStr ''d41d8cd98f00b204e9800998ecf8427e''" and u = "''user''"
       and server = "test_server ''r=abc,s=QUJD,i=4096''" and connection = "()"
       and nonce = "''nonce''" and d = "test_reply ''r=abc,s=QUJD,i=4096''"
       and pl = "''r=abc,s=QUJD,i=4096''" and salt = "''QUJD''" and g = initial_globals
       and sp = "replicate 20 3" and g' = ?g' and cerr = None
       and creply = "RReply (test_reply ''r=abc,s=QUJD,i=4096'')",
     OF test_processPassword test_username refl test_server_reply test_reply_ok test_reply_payload
       test_payload_4096(1) hi ok refl test_server_reply]
  then show ?thesis
    by (simp add: test_server_reply test_source test_escape_user test_payload_4096
        template_value_def test_clientFinal mechanism_name_def echoed)
qed

text \<open>
  C7, as stated, fails on a server whose second reply carries another conversation
  identifier than its first: the identifier of the extra \<^verbatim>\<open>saslContinue\<close> is read from
  the second reply (\<^verbatim>\<open>r.result.conversationId\<close> in the inner callback), so the command
  carries 2 where the \<^verbatim>\<open>saslContinue\<close> before it carried 1.
\<close>

theorem retry_carries_identifier_of_last_reply:
  "fst (executeScram test_platform Sha1 (test_server_other_id ''r=abc,s=QUJD,i=4096'') ()
          test_credentials ''nonce'' initial_globals)
     = Callback None
         (RReply ((test_reply ''r=abc,s=QUJD,i=4096'')\<lparr>r_conversationId := JNumber (Num 2)\<rparr>))
   \<and> fst (snd (executeScram test_platform Sha1 (test_server_other_id ''r=abc,s=QUJD,i=4096'') ()
                 test_credentials ''nonce'' initial_globals))
     = [\<lparr>ns = ''admin.$cmd'', cmd = SaslStart ''SCRAM-SHA-1'' ''n,,n=user,r=nonce'',
          numberToSkip = 0, numberToReturn = 1\<rparr>,
        \<lparr>ns = ''admin.$cmd'',
          cmd = SaslContinue (JNumber (Num 1)) ''c=biws,r=abc,p=AAAAAAAAAAAAAAAAAAAAAAAAAAA='',
          numberToSkip = 0, numberToReturn = 1\<rparr>,
        \<lparr>ns = ''admin.$cmd'', cmd = SaslContinue (JNumber (Num 2)) [],
          numberToSkip = 0, numberToReturn = 1\<rparr>]"
  by (simp only: test_run_other_id fst_conv snd_conv)

subsection \<open>The coordinator\<close>

lemma dispatch_loop_eq: "dispatch_loop connections ticks = ([], ticks @ connections)"
  by (induction connections arbitrary: ticks) auto

lemma auth_sort_outcome_received:
  "outcome_received out \<Longrightarrow>
   auth_sort_outcome out c =
     Inr (if outcome_valid out
          then c\<lparr>numberOfValidConnections := numberOfValidConnections c + 1\<rparr>
          else c\<lparr>errorObject := outcome_error out\<rparr>)"
  by (cases out; cases "fst out"; cases "snd out")
    (auto simp add: auth_sort_outcome_def outcome_received_def outcome_valid_def outcome_error_def)

lemma outcome_error_invalid: "outcome_received out \<Longrightarrow> \<not> outcome_valid out \<Longrightarrow> outcome_error out \<noteq> None"
  by (cases out; cases "fst out"; cases "snd out")
    (auto simp add: outcome_received_def outcome_valid_def outcome_error_def)

lemma outcome_error_valid: "outcome_valid out \<Longrightarrow> outcome_error out = None"
  by (cases out; cases "fst out"; cases "snd out")
    (auto simp add: outcome_valid_def outcome_error_def)

lemma auth_finish_verdict:
  "auth_finish cred authStore c =
     (fst (auth_verdict cred authStore (numberOfValidConnections c) (errorObject c)),
      (if numberOfValidConnections c > 0 \<or> errorObject c \<noteq> None then c
       else c\<lparr>errorObject :=
               Some (MongoError (''failed to authenticate using '' @ mechanism cred))\<rparr>),
      snd (auth_verdict cred authStore (numberOfValidConnections c) (errorObject c)))"
  by (cases "errorObject c") (auto simp add: auth_finish_def auth_verdict_def Let_def)

lemma auth_join_complete:
  "outs \<noteq> [] \<Longrightarrow> count c = int (length outs) \<Longrightarrow> \<forall>out \<in> set outs. outcome_received out \<Longrightarrow>
   auth_join cred authStore c outs =
     (fst (auth_verdict cred authStore
             (numberOfValidConnections c + length (filter outcome_valid outs))
             (last_observed_error (errorObject c) outs)),
      [snd (auth_verdict cred authStore
             (numberOfValidConnections c + length (filter outcome_valid outs))
             (last_observed_error (errorObject c) outs))],
      None)"
proof (induction outs arbitrary: c)
  case Nil
  then show ?case by simp
next
  case (Cons out outs)
  have recv: "outcome_received out" using Cons.prems by simp
  let ?c' = "if outcome_valid out
          then c\<lparr>count := count c - 1, numberOfValidConnections := numberOfValidConnections c + 1\<rparr>
          else c\<lparr>count := count c - 1, errorObject := outcome_error out\<rparr>"
  have sorted: "auth_sort_outcome out (c\<lparr>count := count c - 1\<rparr>) = Inr ?c'"
    by (simp add: auth_sort_outcome_received [OF recv])
  show ?case
  proof (cases outs)
    case Nil
    with Cons.prems have "count ?c' = 0" by simp
    then show ?thesis
      using Nil sorted outcome_error_invalid [OF recv] outcome_error_valid [of out]
      by (auto simp add: auth_callback_def auth_finish_verdict)
  next
    case (Cons out' outs')
    with Cons.prems have cnt: "count ?c' = int (length outs)" "count ?c' \<noteq> 0" by auto
    have step: "auth_callback cred authStore c out = Inr (authStore, ?c', None)"
      using sorted cnt by (simp add: auth_callback_def)
    have ih: "auth_join cred authStore ?c' outs =
     (fst (auth_verdict cred authStore
             (numberOfValidConnections ?c' + length (filter outcome_valid outs))
             (last_observed_error (errorObject ?c') outs)),
      [snd (auth_verdict cred authStore
             (numberOfValidConnections ?c' + length (filter outcome_valid outs))
             (last_observed_error (errorObject ?c') outs))],
      None)"
      using Cons.IH [of ?c'] Cons.prems cnt Cons by simp
    show ?thesis
      using outcome_error_invalid [OF recv] outcome_error_valid [of out]
      by (auto simp add: step ih)
  qed
qed

lemma last_observed_error_last:
  "outs \<noteq> [] \<Longrightarrow> outcome_error (last outs) \<noteq> None \<Longrightarrow>
   last_observed_error seen outs = outcome_error (last outs)"
  by (induction outs arbitrary: seen) (auto split: option.splits)

lemma filter_valid_empty:
  "(length (filter outcome_valid outs) > 0) = (\<exists>out \<in> set outs. outcome_valid out)"
  by (simp add: filter_empty_conv)

lemma addCredentials_eq:
  "addCredentials authStore cred =
     (if \<exists>c \<in> set authStore. equals c cred then authStore else authStore @ [cred])"
  by (simp add: addCredentials_def list_ex_iff)

lemma auth_nonempty:
  assumes "connections \<noteq> []"
    and "length (attempts connections) = length connections"
    and "\<forall>out \<in> set (attempts connections). outcome_received out"
  shows "auth attempts authStore connections cred =
     \<lparr>authStore_after =
        fst (auth_verdict cred authStore (length (filter outcome_valid (attempts connections)))
               (last_observed_error None (attempts connections))),
      connections_after = [], attempted = connections,
      callback_calls =
        [snd (auth_verdict cred authStore (length (filter outcome_valid (attempts connections)))
               (last_observed_error None (attempts connections)))],
      uncaught = None\<rparr>"
proof -
  from assms(1,2) have ne: "attempts connections \<noteq> []" by auto
  show ?thesis
    using assms(1)
      auth_join_complete [OF ne, of "\<lparr>count = int (length connections),
        numberOfValidConnections = 0, errorObject = None\<rparr>" cred authStore]
      assms(2,3)
    by (simp add: auth_def dispatch_loop_eq)
qed

lemma auth_connections_after:
  "connections_after (auth attempts authStore connections cred) = []
   \<and> attempted (auth attempts authStore connections cred) = connections"
  by (cases connections)
    (auto simp add: auth_def dispatch_loop_eq split: prod.splits)

lemma auth_empty:
  "auth attempts authStore [] cred =
     \<lparr>authStore_after = authStore, connections_after = [], attempted = [],
      callback_calls = [(None, ResNull)], uncaught = None\<rparr>"
  by (simp add: auth_def)

text \<open>
  C3, amended. For a call of \<^verbatim>\<open>_auth\<close> with a non-empty connection list in which every
  attempt calls back once, with an error or a reply: an outcome is valid iff its error
  is absent and the result has neither a truthy \<^verbatim>\<open>$err\<close> nor a truthy \<^verbatim>\<open>errmsg\<close>; if
  at least one outcome is valid the result is \<^verbatim>\<open>(null, true)\<close> and the credential is
  appended to the store unless an equal one is there; if none is valid the result is
  \<^verbatim>\<open>(e, false)\<close> and the store is unchanged, where \<^verbatim>\<open>e\<close> is the last observed error
  (the error of the outcome that arrived last), or the synthesized
  \<^verbatim>\<open>failed to authenticate using <mechanism>\<close> error if none was captured.
\<close>

theorem auth_aggregates_outcomes:
  assumes "connections \<noteq> []"
    and "length (attempts connections) = length connections"
    and "\<forall>out \<in> set (attempts connections). outcome_received out"
  shows "uncaught (auth attempts authStore connections cred) = None
     \<and> (if \<exists>out \<in> set (attempts connections). outcome_valid out
        then callback_calls (auth attempts authStore connections cred) = [(None, ResBool True)]
           \<and> authStore_after (auth attempts authStore connections cred)
               = (if \<exists>c \<in> set authStore. equals c cred then authStore else authStore @ [cred])
        else callback_calls (auth attempts authStore connections cred)
               = [(Some (case last_observed_error None (attempts connections) of
                           Some e \<Rightarrow> e
                         | None \<Rightarrow> MongoError (''failed to authenticate using '' @ mechanism cred)),
                   ResBool False)]
           \<and> last_observed_error None (attempts connections)
               = outcome_error (last (attempts connections))
           \<and> authStore_after (auth attempts authStore connections cred) = authStore)"
proof -
  from assms(1,2) have ne: "attempts connections \<noteq> []" by auto
  have last: "last_observed_error None (attempts connections)
               = outcome_error (last (attempts connections))"
    if "\<not> (\<exists>out \<in> set (attempts connections). outcome_valid out)"
  proof (rule last_observed_error_last [OF ne])
    from ne have "last (attempts connections) \<in> set (attempts connections)" by simp
    with that assms(3) show "outcome_error (last (attempts connections)) \<noteq> None"
      using outcome_error_invalid by blast
  qed
  show ?thesis
    using last
    by (simp add: auth_nonempty [where attempts = attempts and connections = connections, OF assms] auth_verdict_def filter_valid_empty addCredentials_eq
        del: length_greater_0_conv)
qed

theorem auth_aggregates_outcomes_witness:
  "callback_calls (auth test_attempts [] [(), ()] test_credentials) = [(None, ResBool True)]
   \<and> authStore_after (auth test_attempts [] [(), ()] test_credentials) = [test_credentials]
   \<and> callback_calls (auth test_failures [] [(), ()] test_credentials)
       = [(Some (ErrorDocument ((test_reply [])\<lparr>r_errmsg := JStr ''auth failed''\<rparr>)), ResBool False)]
   \<and> authStore_after (auth test_failures [] [(), ()] test_credentials) = []"
proof -
  have ne: "[(), ()] \<noteq> []" by simp
  have len: "length (test_attempts [(), ()]) = length [(), ()]"
    "length (test_failures [(), ()]) = length [(), ()]"
    by (simp_all add: test_attempts_def test_failures_def)
  have recv: "\<forall>out \<in> set (test_attempts [(), ()]). outcome_received out"
    "\<forall>out \<in> set (test_failures [(), ()]). outcome_received out"
    by (simp_all add: test_attempts_def test_failures_def outcome_received_def)
  have valid: "\<exists>out \<in> set (test_attempts [(), ()]). outcome_valid out"
    by (simp add: test_attempts_def outcome_valid_def test_reply_def)
  have invalid: "\<not> (\<exists>out \<in> set (test_failures [(), ()]). outcome_valid out)"
    by (simp add: test_failures_def outcome_valid_def test_reply_def)
  have err: "last_observed_error None (test_failures [(), ()])
      = Some (ErrorDocument ((test_reply [])\<lparr>r_errmsg := JStr ''auth failed''\<rparr>))"
    by (simp add: test_failures_def outcome_error_def test_reply_def)
  note ok = auth_aggregates_outcomes
    [where attempts = test_attempts and connections = "[(), ()]" and authStore = "[]"
       and cred = test_credentials, OF ne len(1) recv(1)]
  note bad = auth_aggregates_outcomes
    [where attempts = test_failures and connections = "[(), ()]" and authStore = "[]"
       and cred = test_credentials, OF ne len(2) recv(2)]
  from ok valid bad invalid err show ?thesis by simp
qed

text \<open>
  C3, as stated, fails: validity is decided by the truthiness of the fields, not by
  their presence. A single reply that carries \<^verbatim>\<open>errmsg: ""\<close> is not valid as the claim
  words it, and yet the result is \<^verbatim>\<open>(null, true)\<close> and the credential is stored.
\<close>

theorem falsy_errmsg_counts_as_valid:
  "\<not> outcome_valid_claimed (None, RReply ((test_reply [])\<lparr>r_errmsg := JStr []\<rparr>))
   \<and> callback_calls (auth test_empty_errmsg [] [()] test_credentials) = [(None, ResBool True)]
   \<and> authStore_after (auth test_empty_errmsg [] [()] test_credentials) = [test_credentials]"
  by (simp add: outcome_valid_claimed_def test_reply_def auth_def test_empty_errmsg_def
      auth_callback_def auth_sort_outcome_def auth_finish_def addCredentials_def)

lemma reauth_callback_frame:
  "rs_connections (reauth_callback err s) = rs_connections s"
  "rs_invocations (reauth_callback err s) = rs_invocations s"
  "rs_pending (reauth_callback err s) = rs_pending s"
  "rs_count (reauth_callback err s) = rs_count s - 1"
  "rs_calls (reauth_callback err s) = rs_calls s @ (if rs_count s = 1 then [(err, ResNull)] else [])"
  by (simp_all add: reauth_callback_def Let_def)

lemma reauth_dispatch_empty:
  assumes "rs_connections s = []"
  shows "rs_connections (reauth_dispatch cred s) = []"
    "rs_invocations (reauth_dispatch cred s) = rs_invocations s @ [(cred, [])]"
    "rs_pending (reauth_dispatch cred s) = rs_pending s"
    "rs_count (reauth_dispatch cred s) = rs_count s - 1"
    "rs_calls (reauth_dispatch cred s) = rs_calls s @ (if rs_count s = 1 then [(None, ResNull)] else [])"
  using assms by (simp_all add: reauth_dispatch_def Let_def reauth_callback_frame)

lemma reauth_dispatch_nonempty:
  assumes "rs_connections s \<noteq> []"
  shows "rs_connections (reauth_dispatch cred s) = []"
    "rs_invocations (reauth_dispatch cred s) = rs_invocations s @ [(cred, rs_connections s)]"
    "rs_pending (reauth_dispatch cred s) = rs_pending s @ [(cred, rs_connections s)]"
    "rs_count (reauth_dispatch cred s) = rs_count s"
    "rs_calls (reauth_dispatch cred s) = rs_calls s"
  using assms by (simp_all add: reauth_dispatch_def Let_def dispatch_loop_eq)

lemma reauth_loop_empty:
  "rs_connections s = [] \<Longrightarrow>
   rs_connections (reauth_loop creds s) = []
   \<and> rs_invocations (reauth_loop creds s) = rs_invocations s @ map (\<lambda>c. (c, [])) creds
   \<and> rs_pending (reauth_loop creds s) = rs_pending s
   \<and> rs_count (reauth_loop creds s) = rs_count s - int (length creds)
   \<and> rs_calls (reauth_loop creds s)
       = rs_calls s @ (if 1 \<le> rs_count s \<and> rs_count s \<le> int (length creds)
                       then [(None, ResNull)] else [])"
proof (induction creds arbitrary: s)
  case Nil
  then show ?case by simp
next
  case (Cons cred creds)
  note d = reauth_dispatch_empty [OF Cons.prems, of cred]
  from Cons.IH [OF d(1)] show ?case
    by (auto simp add: d)
qed

lemma reauth_ticks_frame:
  "reauth_ticks attempts pending authStore s = (authStore', s', thrown) \<Longrightarrow>
   rs_connections s' = rs_connections s \<and> rs_invocations s' = rs_invocations s"
proof (induction pending arbitrary: authStore s)
  case Nil
  then show ?case by simp
next
  case (Cons p pending)
  obtain cred ticks where p: "p = (cred, ticks)" by (cases p)
  have fold_frame: "rs_connections (fold (\<lambda>call. reauth_callback (fst call)) calls s) = rs_connections s
      \<and> rs_invocations (fold (\<lambda>call. reauth_callback (fst call)) calls s) = rs_invocations s"
    for calls :: "auth_call list" and s :: "'a reauth_state"
    by (induction calls arbitrary: s) (simp_all add: reauth_callback_frame)
  from Cons.prems show ?case
    using fold_frame Cons.IH
    by (auto simp add: p Let_def split: prod.splits option.splits)
qed

lemma reauthenticate_frame:
  assumes "connections \<noteq> []"
  shows "reauth_connections (reauthenticate replays (c # cs) connections) = []
       \<and> reauth_invocations (reauthenticate replays (c # cs) connections)
           = (c, connections) # map (\<lambda>c'. (c', [])) cs"
proof -
  let ?s0 = "\<lparr>rs_connections = connections, rs_count = int (length (c # cs)),
              rs_pending = [], rs_calls = [], rs_invocations = []\<rparr>"
  have ne: "rs_connections ?s0 \<noteq> []" using assms by simp
  note d = reauth_dispatch_nonempty [OF ne, of c]
  note l = reauth_loop_empty [OF d(1), of cs]
  obtain authStore' s' thrown where
    t: "reauth_ticks replays (rs_pending (reauth_loop (c # cs) ?s0)) (c # cs) (reauth_loop (c # cs) ?s0)
          = (authStore', s', thrown)"
    by (metis prod_cases3)
  from reauth_ticks_frame [OF t] l d
  have "rs_connections s' = [] \<and> rs_invocations s' = (c, connections) # map (\<lambda>c'. (c', [])) cs"
    by simp
  with t show ?thesis
    by (simp add: reauthenticate_def Let_def)
qed

text \<open>
  C9. A call of \<^verbatim>\<open>_auth\<close> with a non-empty connections array starts an attempt for
  every connection and leaves the caller's array empty. Within \<^verbatim>\<open>reauthenticate\<close>
  the first stored credential finds the connections, every later one finds the array
  empty, and the array is empty after the call.
\<close>

theorem dispatch_empties_connections:
  assumes "connections \<noteq> []"
  shows "connections_after (auth attempts authStore connections cred) = []
       \<and> attempted (auth attempts authStore connections cred) = connections
       \<and> reauth_connections (reauthenticate replays (c # cs) connections) = []
       \<and> reauth_invocations (reauthenticate replays (c # cs) connections)
           = (c, connections) # map (\<lambda>c'. (c', [])) cs"
  using reauthenticate_frame [OF assms, of replays c cs]
  by (simp add: auth_connections_after)

lemma auth_verdict_error:
  "fst (snd (auth_verdict cred authStore valid seen))
     = (if valid > 0 then None
        else Some (case seen of
                     Some e \<Rightarrow> e
                   | None \<Rightarrow> MongoError (''failed to authenticate using '' @ mechanism cred)))"
  by (simp add: auth_verdict_def)

lemma replay_error_empty: "replay_error attempts cred [] = None"
  by (simp add: replay_error_def auth_empty)

lemma replay_error_nonempty:
  assumes "connections \<noteq> []"
    and "length (attempts cred connections) = length connections"
    and "\<forall>out \<in> set (attempts cred connections). outcome_received out"
  shows "replay_error attempts cred connections
     = fst (snd (auth_verdict cred authStore
                   (length (filter outcome_valid (attempts cred connections)))
                   (last_observed_error None (attempts cred connections))))"
  using auth_nonempty [where attempts = "attempts cred" and connections = connections
      and authStore = "[]" and cred = cred, OF assms]
  by (simp add: replay_error_def auth_verdict_error)

lemma last_error_Nones: "last_error (map (\<lambda>x. None) xs) = None"
  by (simp add: last_error_def)

lemma last_error_first: "last_error (e # map (\<lambda>x. None) xs) = e"
  by (cases e) (simp_all add: last_error_def)

lemma reauth_ticks_single:
  assumes "connections \<noteq> []"
    and "length (attempts cred connections) = length connections"
    and "\<forall>out \<in> set (attempts cred connections). outcome_received out"
  shows "reauth_ticks attempts [(cred, connections)] authStore s =
     (fst (auth_verdict cred authStore
             (length (filter outcome_valid (attempts cred connections)))
             (last_observed_error None (attempts cred connections))),
      reauth_callback (replay_error attempts cred connections) s, None)"
proof -
  from assms(1,2) have ne: "attempts cred connections \<noteq> []" by auto
  show ?thesis
    using auth_join_complete [OF ne, of "\<lparr>count = int (length connections),
        numberOfValidConnections = 0, errorObject = None\<rparr>" cred authStore] assms(2,3)
    by (simp add: replay_error_nonempty [where attempts = attempts and cred = cred
          and connections = connections and authStore = authStore, OF assms])
qed

text \<open>
  What \<^verbatim>\<open>reauthenticate\<close> does when every attempt calls back once, with an error or a
  reply: it calls \<^verbatim>\<open>_auth\<close> once for every credential of the snapshot, in order,
  throws nothing, and calls its callback exactly once, with the error of the last
  \<^verbatim>\<open>_auth\<close> call that produced one, each call taken on the connections array as it
  finds it.
\<close>

lemma reauthenticate_reports:
  assumes "\<forall>c \<in> set authStore.
             length (attempts c connections) = length connections
             \<and> (\<forall>out \<in> set (attempts c connections). outcome_received out)"
  shows "map fst (reauth_invocations (reauthenticate attempts authStore connections)) = authStore
       \<and> reauth_uncaught (reauthenticate attempts authStore connections) = None
       \<and> reauth_calls (reauthenticate attempts authStore connections)
           = [(last_error (map (\<lambda>(c, ks). replay_error attempts c ks)
                            (reauth_invocations (reauthenticate attempts authStore connections))),
               ResNull)]"
proof (cases authStore)
  case Nil
  then show ?thesis by (simp add: reauthenticate_def last_error_def)
next
  case (Cons c cs)
  let ?s0 = "\<lparr>rs_connections = connections, rs_count = 1 + int (length cs),
              rs_pending = [], rs_calls = [], rs_invocations = []\<rparr>"
  let ?sL = "reauth_loop cs (reauth_dispatch c ?s0)"
  have R: "reauthenticate attempts (c # cs) connections =
      (case reauth_ticks attempts (rs_pending ?sL) (c # cs) ?sL of
         (authStore', s', thrown) \<Rightarrow>
           \<lparr>reauth_authStore = authStore', reauth_connections = rs_connections s',
            reauth_calls = rs_calls s', reauth_invocations = rs_invocations s',
            reauth_uncaught = thrown\<rparr>)"
    by (simp add: reauthenticate_def Let_def)
  show ?thesis
  proof (cases connections)
    case Nil
    have e: "rs_connections ?s0 = []" using Nil by simp
    note d = reauth_dispatch_empty [OF e, of c]
    note l = reauth_loop_empty [OF d(1), of cs]
    have pend: "rs_pending ?sL = []" using l d by simp
    have count: "rs_calls ?sL = [(None, ResNull)]"
      and inv: "rs_invocations ?sL = (c, []) # map (\<lambda>c'. (c', [])) cs"
      using l d by (auto simp add: Suc_le_eq)
    show ?thesis
      unfolding Cons R pend reauth_ticks.simps
      by (simp add: count inv replay_error_empty last_error_first comp_def)
  next
    case (Cons k ks)
    then have ne: "rs_connections ?s0 \<noteq> []" "connections \<noteq> []" by simp_all
    note d = reauth_dispatch_nonempty [OF ne(1), of c]
    note l = reauth_loop_empty [OF d(1), of cs]
    have pend: "rs_pending ?sL = [(c, connections)]"
      using l d by simp
    from assms \<open>authStore = c # cs\<close>
    have complete: "length (attempts c connections) = length connections"
      and recv: "\<forall>out \<in> set (attempts c connections). outcome_received out"
      by simp_all
    note t = reauth_ticks_single [where attempts = attempts and cred = c and connections = connections
        and authStore = "c # cs" and s = "?sL", OF ne(2) complete recv]
    have count: "rs_count ?sL = 1"
      and calls: "rs_calls ?sL = []"
      and inv: "rs_invocations ?sL = (c, connections) # map (\<lambda>c'. (c', [])) cs"
      using l d by simp_all
    show ?thesis
      unfolding \<open>authStore = c # cs\<close> R pend t
      by (simp add: reauth_callback_frame count calls inv replay_error_empty last_error_first comp_def)
  qed
qed

theorem dispatch_empties_connections_witness:
  "connections_after (auth test_attempts [] [(), ()] test_credentials) = []
   \<and> attempted (auth test_attempts [] [(), ()] test_credentials) = [(), ()]
   \<and> reauth_connections
        (reauthenticate (\<lambda>c. test_attempts) [test_credentials, test_credentials_other] [(), ()]) = []
   \<and> reauth_invocations
        (reauthenticate (\<lambda>c. test_attempts) [test_credentials, test_credentials_other] [(), ()])
       = [(test_credentials, [(), ()]), (test_credentials_other, [])]"
proof -
  have ne: "[(), ()] \<noteq> []" by simp
  from dispatch_empties_connections
    [where connections = "[(), ()]" and attempts = test_attempts and authStore = "[]"
       and cred = test_credentials and replays = "\<lambda>c. test_attempts" and c = test_credentials
       and cs = "[test_credentials_other]", OF ne]
  show ?thesis by simp
qed

lemma test_replays_rejected:
  "replay_error test_replays test_credentials_other [(), ()]
     = Some (ErrorDocument ((test_reply [])\<lparr>r_errmsg := JStr ''auth failed''\<rparr>))"
  by (simp add: replay_error_def auth_def test_replays_def test_credentials_other_def
      test_credentials_def auth_callback_def auth_sort_outcome_def auth_finish_def test_reply_def)

lemma test_replays_accepted:
  "replay_error test_replays test_credentials [(), ()] = None"
  by (simp add: replay_error_def auth_def test_replays_def test_credentials_def
      auth_callback_def auth_sort_outcome_def auth_finish_def test_reply_def addCredentials_def)

text \<open>
  C1. The claim has every stored credential replayed against the supplied connections,
  and the error of the last credential whose replay produced one reported. The code
  calls \<^verbatim>\<open>_auth\<close> once per stored credential, but on one and the same array, which the
  first call empties. With two stored credentials and two connections, where the server
  accepts the first credential and rejects the second on every connection, the second
  call of \<^verbatim>\<open>_auth\<close> finds no connection: no attempt is made for the second credential,
  and \<^verbatim>\<open>reauthenticate\<close> reports \<^verbatim>\<open>null\<close>, although the replay of the second credential
  against the supplied connections produces an error.
\<close>

theorem reauthenticate_skips_later_credentials:
  "reauth_invocations
       (reauthenticate test_replays [test_credentials, test_credentials_other] [(), ()])
     = [(test_credentials, [(), ()]), (test_credentials_other, [])]
   \<and> reauth_calls
       (reauthenticate test_replays [test_credentials, test_credentials_other] [(), ()])
     = [(None, ResNull)]
   \<and> replay_error test_replays test_credentials_other [(), ()]
     = Some (ErrorDocument ((test_reply [])\<lparr>r_errmsg := JStr ''auth failed''\<rparr>))"
proof -
  have hyp: "\<forall>c \<in> set [test_credentials, test_credentials_other].
      length (test_replays c [(), ()]) = length [(), ()]
      \<and> (\<forall>out \<in> set (test_replays c [(), ()]). outcome_received out)"
    by (simp add: test_replays_def outcome_received_def)
  have ne: "[(), ()] \<noteq> []" by simp
  note frame = reauthenticate_frame
    [where connections = "[(), ()]" and replays = test_replays and c = test_credentials
       and cs = "[test_credentials_other]", OF ne]
  from reauthenticate_reports
    [where authStore = "[test_credentials, test_credentials_other]"
       and attempts = test_replays and connections = "[(), ()]", OF hyp]
  show ?thesis
    by (simp add: frame test_replays_accepted test_replays_rejected replay_error_empty
        last_error_def)
qed

end
